theory Spec2Isabelle
  imports Complex_Main "HOL-Library.Sublist" "HOL-Library.Word"
begin

section \<open>Strings\<close>

text \<open>
  A Python \<open>str\<close> is modelled as a \<^typ>\<open>string\<close> holding its UTF-8 encoding. The
  operations the service applies to strings (equality, membership in a list, concatenation,
  \<open>in\<close>, \<open>endswith\<close>, \<open>replace\<close>, \<open>join\<close>) give the same answers on the encoding as on the
  code points, because UTF-8 is self-synchronising. The message literals of the source are
  Chinese; each is given below as its bytes, with a gloss.
\<close>

text \<open>\<open>sub in s\<close> on strings.\<close>

fun contains :: "string \<Rightarrow> string \<Rightarrow> bool" where
  "contains sub [] = (sub = [])"
| "contains sub (c # s) = (prefix sub (c # s) \<or> contains sub s)"

text \<open>\<open>s.endswith(suf)\<close>.\<close>

definition endswith :: "string \<Rightarrow> string \<Rightarrow> bool" where
  "endswith s suf = prefix (rev suf) (rev s)"

text \<open>
  \<open>name.replace(".pt", "")\<close>: every occurrence of \<open>.pt\<close> is removed, scanning from the left
  and resuming after each occurrence.
\<close>

fun replace_pt :: "string \<Rightarrow> string" where
  "replace_pt [] = []"
| "replace_pt (c # s) =
     (if prefix ''.pt'' (c # s) then replace_pt (drop 2 s) else c # replace_pt s)"

text \<open>\<open>sep.join(xs)\<close>.\<close>

fun join :: "string \<Rightarrow> string list \<Rightarrow> string" where
  "join sep [] = []"
| "join sep [x] = x"
| "join sep (x # y # ys) = x @ sep @ join sep (y # ys)"

text \<open>
  \<open>s.lower()\<close>. The letters A to Z are mapped to a to z; every other byte is kept (Python
  also lowers letters outside ASCII, which changes none of the comparisons made below
  with ASCII keywords).
\<close>

definition lower_char :: "char \<Rightarrow> char" where
  "lower_char c =
     (case map_of (zip ''ABCDEFGHIJKLMNOPQRSTUVWXYZ'' ''abcdefghijklmnopqrstuvwxyz'') c of
        Some d \<Rightarrow> d
      | None \<Rightarrow> c)"

definition lower :: "string \<Rightarrow> string" where
  "lower s = map lower_char s"

text \<open>
  \<open>v.strip()\<close> is only tested for emptiness (\<open>not v.strip()\<close>), which holds when every
  character of \<open>v\<close> is white space. The white space of a Python \<open>str\<close> is U+0009 to U+000D,
  U+001C to U+0020, U+0085, U+00A0, U+1680, U+2000 to U+200A, U+2028, U+2029, U+202F, U+205F
  and U+3000; \<open>isspace1\<close>, \<open>isspace2\<close> and \<open>isspace3\<close> recognise their encodings of one, two and
  three bytes.
\<close>

definition isspace1 :: "char \<Rightarrow> bool" where
  "isspace1 a = (let n = (of_char a :: nat) in (9 \<le> n \<and> n \<le> 13) \<or> (28 \<le> n \<and> n \<le> 32))"

definition isspace2 :: "char \<Rightarrow> char \<Rightarrow> bool" where
  "isspace2 a b = (a = CHR 0xC2 \<and> (b = CHR 0x85 \<or> b = CHR 0xA0))"

definition isspace3 :: "char \<Rightarrow> char \<Rightarrow> char \<Rightarrow> bool" where
  "isspace3 a b c =
     ((a = CHR 0xE1 \<and> b = CHR 0x9A \<and> c = CHR 0x80) \<or>
      (a = CHR 0xE2 \<and> b = CHR 0x80 \<and>
         ((128 \<le> (of_char c :: nat) \<and> (of_char c :: nat) \<le> 138) \<or>
          c = CHR 0xA8 \<or> c = CHR 0xA9 \<or> c = CHR 0xAF)) \<or>
      (a = CHR 0xE2 \<and> b = CHR 0x81 \<and> c = CHR 0x9F) \<or>
      (a = CHR 0xE3 \<and> b = CHR 0x80 \<and> c = CHR 0x80))"

fun strip_empty :: "string \<Rightarrow> bool" where
  "strip_empty [] = True"
| "strip_empty [a] = isspace1 a"
| "strip_empty [a, b] = ((isspace1 a \<and> strip_empty [b]) \<or> isspace2 a b)"
| "strip_empty (a # b # c # s) =
     ((isspace1 a \<and> strip_empty (b # c # s)) \<or>
      (isspace2 a b \<and> strip_empty (c # s)) \<or>
      (isspace3 a b c \<and> strip_empty s))"

subsection \<open>Message literals\<close>

definition msg_init_service_failed :: string where
  \<comment> \<open>main.py get_tts_service: 'initialising the TTS service failed: '\<close>
  "msg_init_service_failed =
     [CHR 0xE5, CHR 0x88, CHR 0x9D, CHR 0xE5, CHR 0xA7, CHR 0x8B, CHR 0xE5, CHR 0x8C,
     CHR 0x96] @ ''TTS'' @ [CHR 0xE6, CHR 0x9C, CHR 0x8D, CHR 0xE5, CHR 0x8A, CHR 0xA1,
     CHR 0xE5, CHR 0xA4, CHR 0xB1, CHR 0xE8, CHR 0xB4, CHR 0xA5] @ '': ''"

definition msg_preload_failed :: string where
  \<comment> \<open>main.py startup_event: 'model preload failed: '\<close>
  "msg_preload_failed =
     [CHR 0xE6, CHR 0xA8, CHR 0xA1, CHR 0xE5, CHR 0x9E, CHR 0x8B, CHR 0xE9, CHR 0xA2,
     CHR 0x84, CHR 0xE5, CHR 0x8A, CHR 0xA0, CHR 0xE8, CHR 0xBD, CHR 0xBD, CHR 0xE5,
     CHR 0xA4, CHR 0xB1, CHR 0xE8, CHR 0xB4, CHR 0xA5] @ '': ''"

definition msg_load_on_first_request :: string where
  \<comment> \<open>main.py startup_event: 'will try to load the model at the first request'\<close>
  "msg_load_on_first_request =
     [CHR 0xE5, CHR 0xB0, CHR 0x86, CHR 0xE5, CHR 0x9C, CHR 0xA8, CHR 0xE7, CHR 0xAC,
     CHR 0xAC, CHR 0xE4, CHR 0xB8, CHR 0x80, CHR 0xE6, CHR 0xAC, CHR 0xA1, CHR 0xE8,
     CHR 0xAF, CHR 0xB7, CHR 0xE6, CHR 0xB1, CHR 0x82, CHR 0xE6, CHR 0x97, CHR 0xB6,
     CHR 0xE5, CHR 0xB0, CHR 0x9D, CHR 0xE8, CHR 0xAF, CHR 0x95, CHR 0xE5, CHR 0x8A,
     CHR 0xA0, CHR 0xE8, CHR 0xBD, CHR 0xBD, CHR 0xE6, CHR 0xA8, CHR 0xA1, CHR 0xE5,
     CHR 0x9E, CHR 0x8B]"

definition msg_no_api_key :: string where
  \<comment> \<open>main.py verify_api_key: 'no API key supplied'\<close>
  "msg_no_api_key =
     [CHR 0xE6, CHR 0x9C, CHR 0xAA, CHR 0xE6, CHR 0x8F, CHR 0x90, CHR 0xE4, CHR 0xBE,
     CHR 0x9B] @ ''API'' @ [CHR 0xE5, CHR 0xAF, CHR 0x86, CHR 0xE9, CHR 0x92, CHR 0xA5]"

definition msg_bad_api_key :: string where
  \<comment> \<open>main.py verify_api_key: 'invalid API key'\<close>
  "msg_bad_api_key =
     [CHR 0xE6, CHR 0x97, CHR 0xA0, CHR 0xE6, CHR 0x95, CHR 0x88, CHR 0xE7, CHR 0x9A,
     CHR 0x84] @ ''API'' @ [CHR 0xE5, CHR 0xAF, CHR 0x86, CHR 0xE9, CHR 0x92, CHR 0xA5]"

definition msg_validation_error :: string where
  \<comment> \<open>main.py validation_exception_handler: 'request validation error: '\<close>
  "msg_validation_error =
     [CHR 0xE8, CHR 0xAF, CHR 0xB7, CHR 0xE6, CHR 0xB1, CHR 0x82, CHR 0xE9, CHR 0xAA,
     CHR 0x8C, CHR 0xE8, CHR 0xAF, CHR 0x81, CHR 0xE9, CHR 0x94, CHR 0x99, CHR 0xE8,
     CHR 0xAF, CHR 0xAF] @ '': ''"

definition msg_too_large :: string where
  \<comment> \<open>main.py limit_request_size: 'request body too large, at most 16MB'\<close>
  "msg_too_large =
     [CHR 0xE8, CHR 0xAF, CHR 0xB7, CHR 0xE6, CHR 0xB1, CHR 0x82, CHR 0xE4, CHR 0xBD,
     CHR 0x93, CHR 0xE8, CHR 0xBF, CHR 0x87, CHR 0xE5, CHR 0xA4, CHR 0xA7, CHR 0xEF,
     CHR 0xBC, CHR 0x8C, CHR 0xE6, CHR 0x9C, CHR 0x80, CHR 0xE5, CHR 0xA4, CHR 0xA7,
     CHR 0xE5, CHR 0x85, CHR 0x81, CHR 0xE8, CHR 0xAE, CHR 0xB8] @ ''16MB''"

definition msg_get_service_failed :: string where
  \<comment> \<open>main.py tts: 'getting the TTS service failed: '\<close>
  "msg_get_service_failed =
     [CHR 0xE8, CHR 0x8E, CHR 0xB7, CHR 0xE5, CHR 0x8F, CHR 0x96] @ ''TTS'' @ [CHR 0xE6,
     CHR 0x9C, CHR 0x8D, CHR 0xE5, CHR 0x8A, CHR 0xA1, CHR 0xE5, CHR 0xA4, CHR 0xB1,
     CHR 0xE8, CHR 0xB4, CHR 0xA5] @ '': ''"

definition msg_text_speaker_empty :: string where
  \<comment> \<open>main.py tts: 'text and voice id must not be empty'\<close>
  "msg_text_speaker_empty =
     [CHR 0xE6, CHR 0x96, CHR 0x87, CHR 0xE6, CHR 0x9C, CHR 0xAC, CHR 0xE5, CHR 0x92,
     CHR 0x8C, CHR 0xE9, CHR 0x9F, CHR 0xB3, CHR 0xE8, CHR 0x89,
     CHR 0xB2] @ ''ID'' @ [CHR 0xE4, CHR 0xB8, CHR 0x8D, CHR 0xE8, CHR 0x83, CHR 0xBD,
     CHR 0xE4, CHR 0xB8, CHR 0xBA, CHR 0xE7, CHR 0xA9, CHR 0xBA]"

definition msg_voice_id_pre :: string where
  \<comment> \<open>main.py tts: 'voice id ''' (opening quote)\<close>
  "msg_voice_id_pre =
     [CHR 0xE9, CHR 0x9F, CHR 0xB3, CHR 0xE8, CHR 0x89, CHR 0xB2] @ ''ID '' @ [CHR 0x27]"

definition msg_voice_id_post :: string where
  \<comment> \<open>main.py tts: ''' does not exist. Available voices: '\<close>
  "msg_voice_id_post =
     [CHR 0x27] @ '' '' @ [CHR 0xE4, CHR 0xB8, CHR 0x8D, CHR 0xE5, CHR 0xAD, CHR 0x98,
     CHR 0xE5, CHR 0x9C, CHR 0xA8, CHR 0xE3, CHR 0x80, CHR 0x82, CHR 0xE5, CHR 0x8F,
     CHR 0xAF, CHR 0xE7, CHR 0x94, CHR 0xA8, CHR 0xE7, CHR 0x9A, CHR 0x84, CHR 0xE9,
     CHR 0x9F, CHR 0xB3, CHR 0xE8, CHR 0x89, CHR 0xB2] @ '': ''"

definition msg_cannot_load_pre :: string where
  \<comment> \<open>main.py and service.py: 'cannot load voice ''' (opening quote)\<close>
  "msg_cannot_load_pre =
     [CHR 0xE6, CHR 0x97, CHR 0xA0, CHR 0xE6, CHR 0xB3, CHR 0x95, CHR 0xE5, CHR 0x8A,
     CHR 0xA0, CHR 0xE8, CHR 0xBD, CHR 0xBD, CHR 0xE9, CHR 0x9F, CHR 0xB3, CHR 0xE8,
     CHR 0x89, CHR 0xB2] @ '' '' @ [CHR 0x27]"

definition msg_cannot_load_post :: string where
  \<comment> \<open>main.py inference_func: ''' reference audio data'\<close>
  "msg_cannot_load_post =
     [CHR 0x27] @ '' '' @ [CHR 0xE7, CHR 0x9A, CHR 0x84, CHR 0xE5, CHR 0x8F, CHR 0x82,
     CHR 0xE8, CHR 0x80, CHR 0x83, CHR 0xE9, CHR 0x9F, CHR 0xB3, CHR 0xE9, CHR 0xA2,
     CHR 0x91, CHR 0xE6, CHR 0x95, CHR 0xB0, CHR 0xE6, CHR 0x8D, CHR 0xAE]"

definition msg_cannot_load_post_long :: string where
  \<comment> \<open>service.py generate_tts: ''' reference audio data, make sure the file exists and is well formed'\<close>
  "msg_cannot_load_post_long =
     [CHR 0x27] @ '' '' @ [CHR 0xE7, CHR 0x9A, CHR 0x84, CHR 0xE5, CHR 0x8F, CHR 0x82,
     CHR 0xE8, CHR 0x80, CHR 0x83, CHR 0xE9, CHR 0x9F, CHR 0xB3, CHR 0xE9, CHR 0xA2,
     CHR 0x91, CHR 0xE6, CHR 0x95, CHR 0xB0, CHR 0xE6, CHR 0x8D, CHR 0xAE, CHR 0xEF,
     CHR 0xBC, CHR 0x8C, CHR 0xE8, CHR 0xAF, CHR 0xB7, CHR 0xE7, CHR 0xA1, CHR 0xAE,
     CHR 0xE4, CHR 0xBF, CHR 0x9D, CHR 0xE6, CHR 0x96, CHR 0x87, CHR 0xE4, CHR 0xBB,
     CHR 0xB6, CHR 0xE5, CHR 0xAD, CHR 0x98, CHR 0xE5, CHR 0x9C, CHR 0xA8, CHR 0xE4,
     CHR 0xB8, CHR 0x94, CHR 0xE6, CHR 0xA0, CHR 0xBC, CHR 0xE5, CHR 0xBC, CHR 0x8F,
     CHR 0xE6, CHR 0xAD, CHR 0xA3, CHR 0xE7, CHR 0xA1, CHR 0xAE]"

definition msg_tts_failed :: string where
  \<comment> \<open>main.py inference_func: 'TTS generation failed: '\<close>
  "msg_tts_failed =
     ''TTS'' @ [CHR 0xE7, CHR 0x94, CHR 0x9F, CHR 0xE6, CHR 0x88, CHR 0x90, CHR 0xE5,
     CHR 0xA4, CHR 0xB1, CHR 0xE8, CHR 0xB4, CHR 0xA5] @ '': ''"

definition msg_model_input_error :: string where
  \<comment> \<open>main.py inference_func: 'model input error: the text may be too long or hold unsupported characters'\<close>
  "msg_model_input_error =
     [CHR 0xE6, CHR 0xA8, CHR 0xA1, CHR 0xE5, CHR 0x9E, CHR 0x8B, CHR 0xE8, CHR 0xBE,
     CHR 0x93, CHR 0xE5, CHR 0x85, CHR 0xA5, CHR 0xE9, CHR 0x94, CHR 0x99, CHR 0xE8,
     CHR 0xAF, CHR 0xAF] @ '': '' @ [CHR 0xE6, CHR 0x96, CHR 0x87, CHR 0xE6, CHR 0x9C,
     CHR 0xAC, CHR 0xE5, CHR 0x8F, CHR 0xAF, CHR 0xE8, CHR 0x83, CHR 0xBD, CHR 0xE8,
     CHR 0xBF, CHR 0x87, CHR 0xE9, CHR 0x95, CHR 0xBF, CHR 0xE6, CHR 0x88, CHR 0x96,
     CHR 0xE5, CHR 0x8C, CHR 0x85, CHR 0xE5, CHR 0x90, CHR 0xAB, CHR 0xE4, CHR 0xB8,
     CHR 0x8D, CHR 0xE6, CHR 0x94, CHR 0xAF, CHR 0xE6, CHR 0x8C, CHR 0x81, CHR 0xE7,
     CHR 0x9A, CHR 0x84, CHR 0xE5, CHR 0xAD, CHR 0x97, CHR 0xE7, CHR 0xAC, CHR 0xA6]"

definition msg_out_of_memory :: string where
  \<comment> \<open>main.py inference_func: 'out of memory: shorten the text or turn streaming off'\<close>
  "msg_out_of_memory =
     [CHR 0xE5, CHR 0x86, CHR 0x85, CHR 0xE5, CHR 0xAD, CHR 0x98, CHR 0xE4, CHR 0xB8,
     CHR 0x8D, CHR 0xE8, CHR 0xB6, CHR 0xB3] @ '': '' @ [CHR 0xE8, CHR 0xAF, CHR 0xB7,
     CHR 0xE5, CHR 0xB0, CHR 0x9D, CHR 0xE8, CHR 0xAF, CHR 0x95, CHR 0xE5, CHR 0x87,
     CHR 0x8F, CHR 0xE5, CHR 0xB0, CHR 0x91, CHR 0xE6, CHR 0x96, CHR 0x87, CHR 0xE6,
     CHR 0x9C, CHR 0xAC, CHR 0xE9, CHR 0x95, CHR 0xBF, CHR 0xE5, CHR 0xBA, CHR 0xA6,
     CHR 0xE6, CHR 0x88, CHR 0x96, CHR 0xE5, CHR 0x85, CHR 0xB3, CHR 0xE9, CHR 0x97,
     CHR 0xAD, CHR 0xE6, CHR 0xB5, CHR 0x81, CHR 0xE5, CHR 0xBC, CHR 0x8F, CHR 0xE5,
     CHR 0xA4, CHR 0x84, CHR 0xE7, CHR 0x90, CHR 0x86]"

definition msg_voice_error :: string where
  \<comment> \<open>main.py inference_func: 'voice error: '\<close>
  "msg_voice_error =
     [CHR 0xE9, CHR 0x9F, CHR 0xB3, CHR 0xE8, CHR 0x89, CHR 0xB2, CHR 0xE9, CHR 0x94,
     CHR 0x99, CHR 0xE8, CHR 0xAF, CHR 0xAF] @ '': ''"

definition msg_voice :: string where
  \<comment> \<open>main.py inference_func: the word 'voice' searched for in the error message\<close>
  "msg_voice =
     [CHR 0xE9, CHR 0x9F, CHR 0xB3, CHR 0xE8, CHR 0x89, CHR 0xB2]"

definition msg_stream_error :: string where
  \<comment> \<open>main.py generate: 'an error occurred during streaming generation: '\<close>
  "msg_stream_error =
     [CHR 0xE6, CHR 0xB5, CHR 0x81, CHR 0xE5, CHR 0xBC, CHR 0x8F, CHR 0xE7, CHR 0x94,
     CHR 0x9F, CHR 0xE6, CHR 0x88, CHR 0x90, CHR 0xE8, CHR 0xBF, CHR 0x87, CHR 0xE7,
     CHR 0xA8, CHR 0x8B, CHR 0xE4, CHR 0xB8, CHR 0xAD, CHR 0xE5, CHR 0x8F, CHR 0x91,
     CHR 0xE7, CHR 0x94, CHR 0x9F, CHR 0xE9, CHR 0x94, CHR 0x99, CHR 0xE8, CHR 0xAF,
     CHR 0xAF] @ '': ''"

definition msg_input_validation :: string where
  \<comment> \<open>main.py tts: 'TTS input validation error: '\<close>
  "msg_input_validation =
     ''TTS'' @ [CHR 0xE8, CHR 0xBE, CHR 0x93, CHR 0xE5, CHR 0x85, CHR 0xA5, CHR 0xE9,
     CHR 0xAA, CHR 0x8C, CHR 0xE8, CHR 0xAF, CHR 0x81, CHR 0xE9, CHR 0x94, CHR 0x99,
     CHR 0xE8, CHR 0xAF, CHR 0xAF] @ '': ''"

definition msg_tts_processing :: string where
  \<comment> \<open>main.py tts: 'TTS processing error: '\<close>
  "msg_tts_processing =
     ''TTS'' @ [CHR 0xE5, CHR 0xA4, CHR 0x84, CHR 0xE7, CHR 0x90, CHR 0x86, CHR 0xE9,
     CHR 0x94, CHR 0x99, CHR 0xE8, CHR 0xAF, CHR 0xAF] @ '': ''"

definition msg_internal_error :: string where
  \<comment> \<open>main.py tts: 'internal server error: '\<close>
  "msg_internal_error =
     [CHR 0xE6, CHR 0x9C, CHR 0x8D, CHR 0xE5, CHR 0x8A, CHR 0xA1, CHR 0xE5, CHR 0x99,
     CHR 0xA8, CHR 0xE5, CHR 0x86, CHR 0x85, CHR 0xE9, CHR 0x83, CHR 0xA8, CHR 0xE9,
     CHR 0x94, CHR 0x99, CHR 0xE8, CHR 0xAF, CHR 0xAF] @ '': ''"

definition msg_load_voice_failed :: string where
  \<comment> \<open>service.py load_voice_data: 'loading the voice file failed: '\<close>
  "msg_load_voice_failed =
     [CHR 0xE5, CHR 0x8A, CHR 0xA0, CHR 0xE8, CHR 0xBD, CHR 0xBD, CHR 0xE9, CHR 0x9F,
     CHR 0xB3, CHR 0xE8, CHR 0x89, CHR 0xB2, CHR 0xE6, CHR 0x96, CHR 0x87, CHR 0xE4,
     CHR 0xBB, CHR 0xB6, CHR 0xE5, CHR 0xA4, CHR 0xB1, CHR 0xE8, CHR 0xB4,
     CHR 0xA5] @ '': ''"

definition msg_model_path_missing :: string where
  \<comment> \<open>service.py initialize_model: 'the model path does not exist: '\<close>
  "msg_model_path_missing =
     [CHR 0xE6, CHR 0xA8, CHR 0xA1, CHR 0xE5, CHR 0x9E, CHR 0x8B, CHR 0xE8, CHR 0xB7,
     CHR 0xAF, CHR 0xE5, CHR 0xBE, CHR 0x84, CHR 0xE4, CHR 0xB8, CHR 0x8D, CHR 0xE5,
     CHR 0xAD, CHR 0x98, CHR 0xE5, CHR 0x9C, CHR 0xA8] @ '': ''"

definition msg_model_dir_pre :: string where
  \<comment> \<open>service.py initialize_model: 'TTS model folder not found: '\<close>
  "msg_model_dir_pre =
     [CHR 0xE6, CHR 0x9C, CHR 0xAA, CHR 0xE6, CHR 0x89, CHR 0xBE, CHR 0xE5, CHR 0x88,
     CHR 0xB0] @ ''TTS'' @ [CHR 0xE6, CHR 0xA8, CHR 0xA1, CHR 0xE5, CHR 0x9E, CHR 0x8B,
     CHR 0xE6, CHR 0x96, CHR 0x87, CHR 0xE4, CHR 0xBB, CHR 0xB6, CHR 0xE5, CHR 0xA4,
     CHR 0xB9] @ '': ''"

definition msg_model_dir_post :: string where
  \<comment> \<open>service.py initialize_model: ', make sure the pretrained model is downloaded'\<close>
  "msg_model_dir_post =
     [CHR 0xEF, CHR 0xBC, CHR 0x8C, CHR 0xE8, CHR 0xAF, CHR 0xB7, CHR 0xE7, CHR 0xA1,
     CHR 0xAE, CHR 0xE4, CHR 0xBF, CHR 0x9D, CHR 0xE4, CHR 0xB8, CHR 0x8B, CHR 0xE8,
     CHR 0xBD, CHR 0xBD, CHR 0xE4, CHR 0xBA, CHR 0x86, CHR 0xE9, CHR 0xA2, CHR 0x84,
     CHR 0xE8, CHR 0xAE, CHR 0xAD, CHR 0xE7, CHR 0xBB, CHR 0x83, CHR 0xE6, CHR 0xA8,
     CHR 0xA1, CHR 0xE5, CHR 0x9E, CHR 0x8B]"

definition msg_init_cosyvoice_failed :: string where
  \<comment> \<open>service.py initialize_model: 'initialising the CosyVoice2 model failed: '\<close>
  "msg_init_cosyvoice_failed =
     [CHR 0xE5, CHR 0x88, CHR 0x9D, CHR 0xE5, CHR 0xA7, CHR 0x8B, CHR 0xE5, CHR 0x8C,
     CHR 0x96] @ ''CosyVoice2'' @ [CHR 0xE6, CHR 0xA8, CHR 0xA1, CHR 0xE5, CHR 0x9E,
     CHR 0x8B, CHR 0xE5, CHR 0xA4, CHR 0xB1, CHR 0xE8, CHR 0xB4, CHR 0xA5] @ '': ''"

definition msg_init_model_failed :: string where
  \<comment> \<open>service.py initialize_model: 'initialising the TTS model failed: '\<close>
  "msg_init_model_failed =
     [CHR 0xE5, CHR 0x88, CHR 0x9D, CHR 0xE5, CHR 0xA7, CHR 0x8B, CHR 0xE5, CHR 0x8C,
     CHR 0x96] @ ''TTS'' @ [CHR 0xE6, CHR 0xA8, CHR 0xA1, CHR 0xE5, CHR 0x9E, CHR 0x8B,
     CHR 0xE5, CHR 0xA4, CHR 0xB1, CHR 0xE8, CHR 0xB4, CHR 0xA5] @ '': ''"

definition msg_spk_pre :: string where
  \<comment> \<open>service.py generate_tts: 'voice ''' (opening quote)\<close>
  "msg_spk_pre =
     [CHR 0xE9, CHR 0x9F, CHR 0xB3, CHR 0xE8, CHR 0x89, CHR 0xB2] @ '' '' @ [CHR 0x27]"

definition msg_spk_post :: string where
  \<comment> \<open>service.py generate_tts: ''' does not exist. Available voices: '\<close>
  "msg_spk_post =
     [CHR 0x27] @ '' '' @ [CHR 0xE4, CHR 0xB8, CHR 0x8D, CHR 0xE5, CHR 0xAD, CHR 0x98,
     CHR 0xE5, CHR 0x9C, CHR 0xA8, CHR 0xE3, CHR 0x80, CHR 0x82, CHR 0xE5, CHR 0x8F,
     CHR 0xAF, CHR 0xE7, CHR 0x94, CHR 0xA8, CHR 0xE9, CHR 0x9F, CHR 0xB3, CHR 0xE8,
     CHR 0x89, CHR 0xB2] @ '': ''"

definition msg_generation_failed :: string where
  \<comment> \<open>service.py generate_tts: 'speech generation failed: '\<close>
  "msg_generation_failed =
     [CHR 0xE8, CHR 0xAF, CHR 0xAD, CHR 0xE9, CHR 0x9F, CHR 0xB3, CHR 0xE7, CHR 0x94,
     CHR 0x9F, CHR 0xE6, CHR 0x88, CHR 0x90, CHR 0xE5, CHR 0xA4, CHR 0xB1, CHR 0xE8,
     CHR 0xB4, CHR 0xA5] @ '': ''"

definition msg_rt_memory :: string where
  \<comment> \<open>service.py generate_tts: 'out of memory, cannot process the text ...: '\<close>
  "msg_rt_memory =
     [CHR 0xE5, CHR 0x86, CHR 0x85, CHR 0xE5, CHR 0xAD, CHR 0x98, CHR 0xE4, CHR 0xB8,
     CHR 0x8D, CHR 0xE8, CHR 0xB6, CHR 0xB3, CHR 0xEF, CHR 0xBC, CHR 0x8C, CHR 0xE6,
     CHR 0x97, CHR 0xA0, CHR 0xE6, CHR 0xB3, CHR 0x95, CHR 0xE5, CHR 0xA4, CHR 0x84,
     CHR 0xE7, CHR 0x90, CHR 0x86, CHR 0xE6, CHR 0x96, CHR 0x87, CHR 0xE6, CHR 0x9C,
     CHR 0xAC, CHR 0xE3, CHR 0x80, CHR 0x82, CHR 0xE8, CHR 0xAF, CHR 0xB7, CHR 0xE5,
     CHR 0xB0, CHR 0x9D, CHR 0xE8, CHR 0xAF, CHR 0x95, CHR 0xE5, CHR 0x87, CHR 0x8F,
     CHR 0xE5, CHR 0xB0, CHR 0x91, CHR 0xE6, CHR 0x96, CHR 0x87, CHR 0xE6, CHR 0x9C,
     CHR 0xAC, CHR 0xE9, CHR 0x95, CHR 0xBF, CHR 0xE5, CHR 0xBA, CHR 0xA6, CHR 0xE6,
     CHR 0x88, CHR 0x96, CHR 0xE4, CHR 0xBD, CHR 0xBF, CHR 0xE7, CHR 0x94, CHR 0xA8,
     CHR 0xE6, CHR 0xB5, CHR 0x81, CHR 0xE5, CHR 0xBC, CHR 0x8F, CHR 0xE5, CHR 0xA4,
     CHR 0x84, CHR 0xE7, CHR 0x90, CHR 0x86] @ '': ''"

definition msg_rt_network :: string where
  \<comment> \<open>service.py generate_tts: 'network connection error, cannot reach the model service: '\<close>
  "msg_rt_network =
     [CHR 0xE7, CHR 0xBD, CHR 0x91, CHR 0xE7, CHR 0xBB, CHR 0x9C, CHR 0xE8, CHR 0xBF,
     CHR 0x9E, CHR 0xE6, CHR 0x8E, CHR 0xA5, CHR 0xE9, CHR 0x94, CHR 0x99, CHR 0xE8,
     CHR 0xAF, CHR 0xAF, CHR 0xEF, CHR 0xBC, CHR 0x8C, CHR 0xE6, CHR 0x97, CHR 0xA0,
     CHR 0xE6, CHR 0xB3, CHR 0x95, CHR 0xE8, CHR 0xAE, CHR 0xBF, CHR 0xE9, CHR 0x97,
     CHR 0xAE, CHR 0xE6, CHR 0xA8, CHR 0xA1, CHR 0xE5, CHR 0x9E, CHR 0x8B, CHR 0xE6,
     CHR 0x9C, CHR 0x8D, CHR 0xE5, CHR 0x8A, CHR 0xA1] @ '': ''"

definition msg_rt_platform :: string where
  \<comment> \<open>service.py generate_tts: 'this platform does not support the feature: '\<close>
  "msg_rt_platform =
     [CHR 0xE5, CHR 0xBD, CHR 0x93, CHR 0xE5, CHR 0x89, CHR 0x8D, CHR 0xE5, CHR 0xB9,
     CHR 0xB3, CHR 0xE5, CHR 0x8F, CHR 0xB0, CHR 0xE4, CHR 0xB8, CHR 0x8D, CHR 0xE6,
     CHR 0x94, CHR 0xAF, CHR 0xE6, CHR 0x8C, CHR 0x81, CHR 0xE8, CHR 0xAF, CHR 0xA5,
     CHR 0xE5, CHR 0x8A, CHR 0x9F, CHR 0xE8, CHR 0x83, CHR 0xBD] @ '': ''"

definition msg_rt_generic :: string where
  \<comment> \<open>service.py generate_tts: 'an error occurred during speech generation: '\<close>
  "msg_rt_generic =
     [CHR 0xE8, CHR 0xAF, CHR 0xAD, CHR 0xE9, CHR 0x9F, CHR 0xB3, CHR 0xE7, CHR 0x94,
     CHR 0x9F, CHR 0xE6, CHR 0x88, CHR 0x90, CHR 0xE8, CHR 0xBF, CHR 0x87, CHR 0xE7,
     CHR 0xA8, CHR 0x8B, CHR 0xE4, CHR 0xB8, CHR 0xAD, CHR 0xE5, CHR 0x8F, CHR 0x91,
     CHR 0xE7, CHR 0x94, CHR 0x9F, CHR 0xE9, CHR 0x94, CHR 0x99, CHR 0xE8, CHR 0xAF,
     CHR 0xAF] @ '': ''"

section \<open>Configuration (api/config.py)\<close>

text \<open>
  \<open>PRELOAD_MODEL\<close> is computed at import from the environment variable of the same name;
  the argument is the variable's value, \<open>None\<close> when it is unset.
\<close>

definition PRELOAD_MODEL :: "string option \<Rightarrow> bool" where
  "PRELOAD_MODEL var =
     (let preload_env = (case var of None \<Rightarrow> ''True'' | Some v \<Rightarrow> v) in
      if lower preload_env \<in> set [''true'', ''1'', ''t'', ''yes'', ''y''] then True else True)"

definition API_KEYS :: "string list" where
  "API_KEYS = [''cosyvoice-api-demo'']"

definition NO_AUTH_PATHS :: "string list" where
  "NO_AUTH_PATHS = [''/docs'', ''/redoc'', ''/openapi.json'', ''/health'']"

definition ENABLE_API_AUTH :: bool where
  "ENABLE_API_AUTH = True"

section \<open>Data\<close>

type_synonym bytes = "8 word list"

text \<open>
  A two-dimensional tensor \<open>(channels, samples)\<close> is the list of its rows, one per channel.
  The samples are floating-point numbers that the service only moves; they are modelled as
  reals. \<open>shape0\<close> and \<open>shape1\<close> are \<open>t.shape[0]\<close> and \<open>t.shape[1]\<close>; the rows of a tensor
  have one length (\<open>rectangular\<close>).
\<close>

type_synonym tensor = "real list list"

definition shape0 :: "tensor \<Rightarrow> nat" where
  "shape0 t = length t"

definition shape1 :: "tensor \<Rightarrow> nat" where
  "shape1 t = (case t of [] \<Rightarrow> 0 | r # _ \<Rightarrow> length r)"

definition rectangular :: "tensor \<Rightarrow> bool" where
  "rectangular t = list_all (\<lambda>r. length r = shape1 t) t"

text \<open>
  The exceptions that cross the service: FastAPI's \<open>HTTPException(status_code, detail)\<close>
  and \<open>RequestValidationError\<close> (with the names of the parameters it refuses), Python's
  \<open>ValueError\<close>, \<open>RuntimeError\<close> and \<open>FileNotFoundError\<close> with their message, and
  \<open>OtherException\<close> for
  any other subclass of \<open>Exception\<close> that the engine, torch or torchaudio raise, with the
  text \<open>str\<close> gives for it.
\<close>

datatype exc =
    HTTPException nat string
  | RequestValidationError "string list"
  | ValueError string
  | RuntimeError string
  | FileNotFoundError string
  | OtherException string

text \<open>One item of the engine's output: a dictionary whose key \<open>tts_speech\<close> is read.\<close>

record chunk =
  tts_speech :: tensor

text \<open>
  The generator an inference call returns: it ends (\<open>Done\<close>), yields an item and goes on
  (\<open>Yield\<close>), or raises (\<open>Raise\<close>). Pulling from it is what runs the engine.
\<close>

datatype gen = Done | Yield chunk gen | Raise exc

text \<open>
  A file \<open>VOICES_DIR/<speaker>.pt\<close>: either \<open>torch.load\<close> (or the \<open>.get\<close> on its result)
  raises, or it holds a dictionary, with or without the key \<open>audio_ref\<close>.
\<close>

datatype voice_file = Unloadable exc | VoiceData "tensor option"

text \<open>The calls made on the model, with their arguments.\<close>

datatype engine_call =
    Inference_sft string string bool real
  | Inference_instruct2 string string tensor bool real

fun call_speed :: "engine_call \<Rightarrow> real" where
  "call_speed (Inference_sft text speaker stream speed) = speed"
| "call_speed (Inference_instruct2 text instruct prompt stream speed) = speed"

datatype level = WARNING | ERROR

text \<open>
  What lies outside the service and is only read by it: the process environment, the
  file system, the CosyVoice2 engine, torchaudio's encoder, and how the web framework
  prints its own exceptions.
\<close>

record env =
  environ_PRELOAD_MODEL :: "string option"
  MODEL_PATH :: string
  model_path_exists :: bool
  load_model :: "exc option"
  list_available_spks :: "string list"
  voices_dir_exists :: bool
  listdir :: "string list"
  voice_file :: "string \<Rightarrow> voice_file option"
  inference_sft :: "string \<Rightarrow> string \<Rightarrow> bool \<Rightarrow> real \<Rightarrow> exc + gen"
  inference_instruct2 :: "string \<Rightarrow> string \<Rightarrow> tensor \<Rightarrow> bool \<Rightarrow> real \<Rightarrow> exc + gen"
  torch_empty_error :: exc
  torch_size_error :: "tensor list \<Rightarrow> exc"
  torchaudio_save :: "tensor \<Rightarrow> nat \<Rightarrow> string \<Rightarrow> exc + bytes"
  http_str :: "nat \<Rightarrow> string \<Rightarrow> string"
  validation_str :: "string list \<Rightarrow> string"

text \<open>
  \<open>load_model\<close> is the exception \<open>CosyVoice2(model_path)\<close> raises, if it raises.
  \<open>torch_empty_error\<close> and \<open>torch_size_error\<close> are the exceptions \<open>torch.concat\<close> raises for an
  empty list and for tensors whose sizes do not match; their class and text depend on the
  version of torch.
\<close>

fun str_exc :: "env \<Rightarrow> exc \<Rightarrow> string" where
  "str_exc env (HTTPException status_code detail) = http_str env status_code detail"
| "str_exc env (RequestValidationError params) = validation_str env params"
| "str_exc env (ValueError m) = m"
| "str_exc env (RuntimeError m) = m"
| "str_exc env (FileNotFoundError m) = m"
| "str_exc env (OtherException m) = m"

text \<open>One entry of the voice listing: the dictionary \<open>{"name": ..., "voice_id": ...}\<close>.\<close>

record voice =
  name :: string
  voice_id :: string

text \<open>
  The \<open>TTSService\<close> object. Its attributes are set by \<open>initialize_model\<close> and never
  written again.
\<close>

record service =
  initialized :: bool
  default_voices :: "string list"
  spk_custom :: "string list"

text \<open>
  The state of the process: the class attribute \<open>TTSService._instance\<close>
  (\<open>cls_instance\<close>), the global \<open>tts_service\<close> of main.py, the log (entries written with
  \<open>logger.warning\<close> and \<open>logger.error\<close>), the calls made on the model, and the tensors
  handed to the encoder with their sample rate and format.
\<close>

record state =
  cls_instance :: "service option"
  tts_service :: "service option"
  log :: "(level \<times> string) list"
  engine_calls :: "engine_call list"
  encoded :: "(tensor \<times> nat \<times> string) list"

datatype response =
    StreamingResponse (status: nat) (media_type: string) (filename: string)
      (body: "bytes list") (stream_error: "exc option")
  | JSONResponse (status: nat) (json_detail: string)

text \<open>
  \<open>body\<close> lists the pieces of the body in the order they are sent; \<open>stream_error\<close> is the
  exception the body's iterator raises to the transport, if it raises one. A
  \<open>JSONResponse\<close> has the content \<open>{"detail": ...}\<close>.
\<close>

definition logger_error :: "state \<Rightarrow> string \<Rightarrow> state" where
  "logger_error st m = st\<lparr>log := log st @ [(ERROR, m)]\<rparr>"

definition logger_warning :: "state \<Rightarrow> string \<Rightarrow> state" where
  "logger_warning st m = st\<lparr>log := log st @ [(WARNING, m)]\<rparr>"

section \<open>The service (api/service.py)\<close>

text \<open>
  \<open>torch.concat(tensors, dim=1)\<close>, from the documentation of torch: the list must not be
  empty and the tensors must agree in every dimension but the second; row \<open>i\<close> of the result
  is the rows \<open>i\<close> of the tensors, one after the other.
\<close>

definition torch_concat :: "env \<Rightarrow> tensor list \<Rightarrow> exc + tensor" where
  "torch_concat env tensors =
     (case tensors of
        [] \<Rightarrow> Inl (torch_empty_error env)
      | t # rest \<Rightarrow>
          if list_all (\<lambda>u. shape0 u = shape0 t) rest
          then Inr (map (\<lambda>i. concat (map (\<lambda>u. u ! i) tensors)) [0..<shape0 t])
          else Inl (torch_size_error env tensors))"

definition process_audio ::
  "env \<Rightarrow> state \<Rightarrow> tensor list \<Rightarrow> nat \<Rightarrow> string \<Rightarrow> (exc + bytes) \<times> state" where
  "process_audio env st tts_speeches sample_rate fmt =
     (case torch_concat env tts_speeches of
        Inl e \<Rightarrow> (Inl e, st)
      | Inr audio_data \<Rightarrow>
          (torchaudio_save env audio_data sample_rate fmt,
           st\<lparr>encoded := encoded st @ [(audio_data, sample_rate, fmt)]\<rparr>))"

definition load_voice_data :: "env \<Rightarrow> state \<Rightarrow> string \<Rightarrow> (exc + tensor option) \<times> state" where
  "load_voice_data env st speaker =
     (case voice_file env speaker of
        None \<Rightarrow> (Inr None, st)
      | Some (VoiceData audio_ref) \<Rightarrow> (Inr audio_ref, st)
      | Some (Unloadable e) \<Rightarrow>
          (Inl (ValueError (msg_load_voice_failed @ str_exc env e)),
           logger_error st (msg_load_voice_failed @ str_exc env e)))"

text \<open>
  The loop over \<open>os.listdir(config.VOICES_DIR)\<close>, written twice in the source (in
  \<open>get_available_voices\<close> and in \<open>initialize_model\<close>): the names ending in \<open>.pt\<close>, with
  \<open>.pt\<close> removed.
\<close>

fun scan_voices :: "string list \<Rightarrow> string list" where
  "scan_voices [] = []"
| "scan_voices (n # ns) =
     (if endswith n ''.pt'' then replace_pt n # scan_voices ns else scan_voices ns)"

text \<open>
  \<open>initialize_model\<close>. The branch for macOS, which sets a library path and preloads
  libsndfile, writes no attribute of the service and is left out.
\<close>

definition initialize_model :: "env \<Rightarrow> state \<Rightarrow> (exc + service) \<times> state" where
  "initialize_model env st =
     (if \<not> model_path_exists env then
        (let e = FileNotFoundError (msg_model_dir_pre @ MODEL_PATH env @ msg_model_dir_post);
             st1 = logger_error st (msg_model_path_missing @ MODEL_PATH env);
             st2 = logger_error st1 (msg_init_cosyvoice_failed @ str_exc env e)
         in (Inl (RuntimeError (msg_init_model_failed @ str_exc env e)), st2))
      else
        (case load_model env of
           Some e \<Rightarrow>
             (Inl (RuntimeError (msg_init_model_failed @ str_exc env e)),
              logger_error st (msg_init_cosyvoice_failed @ str_exc env e))
         | None \<Rightarrow>
             (Inr \<lparr>initialized = True,
                   default_voices = list_available_spks env,
                   spk_custom = (if voices_dir_exists env then scan_voices (listdir env) else [])\<rparr>,
              st)))"

text \<open>
  The call \<open>TTSService()\<close>: \<open>__new__\<close> creates the instance once, not yet initialised, and
  \<open>__init__\<close> initialises it unless it is initialised already. An instance whose
  initialisation failed stays in \<open>_instance\<close>, and the next call tries again.
\<close>

definition TTSService :: "env \<Rightarrow> state \<Rightarrow> (exc + service) \<times> state" where
  "TTSService env st =
     (let self = (case cls_instance st of
                    None \<Rightarrow> \<lparr>initialized = False, default_voices = [], spk_custom = []\<rparr>
                  | Some s \<Rightarrow> s);
          st1 = st\<lparr>cls_instance := Some self\<rparr>
      in if initialized self then (Inr self, st1)
         else (case initialize_model env st1 of
                 (Inl e, st2) \<Rightarrow> (Inl e, st2)
               | (Inr s, st2) \<Rightarrow> (Inr s, st2\<lparr>cls_instance := Some s\<rparr>)))"

definition get_available_voices :: "env \<Rightarrow> state \<Rightarrow> (exc + voice list) \<times> state" where
  "get_available_voices env st =
     (case TTSService env st of
        (Inl e, st1) \<Rightarrow> (Inl e, st1)
      | (Inr service, st1) \<Rightarrow>
          (Inr (map (\<lambda>n. \<lparr>name = n, voice_id = n\<rparr>) (list_available_spks env) @
                (if voices_dir_exists env
                 then map (\<lambda>voice_name. \<lparr>name = voice_name, voice_id = voice_name\<rparr>)
                        (scan_voices (listdir env))
                 else [])),
           st1))"

text \<open>
  \<open>generate_tts\<close>: the \<open>try\<close> block first, then the handler that turns every exception of
  the block into a \<open>RuntimeError\<close>. \<open>if instruct\<close> holds for a string that is not empty.
\<close>

definition generate_tts_try ::
  "env \<Rightarrow> service \<Rightarrow> state \<Rightarrow> string \<Rightarrow> string \<Rightarrow> string option \<Rightarrow> bool \<Rightarrow> real
     \<Rightarrow> (exc + gen) \<times> state" where
  "generate_tts_try env self st text speaker instruct streaming speed =
     (if speaker \<notin> set (default_voices self) \<and> speaker \<notin> set (spk_custom self) then
        (let available_voices = default_voices self @ spk_custom self
         in (Inl (ValueError (msg_spk_pre @ speaker @ msg_spk_post @
                               join '', '' available_voices)), st))
      else
        (case (if instruct = Some [] then None else instruct) of
           Some i \<Rightarrow>
             (case load_voice_data env st speaker of
                (Inl e, st1) \<Rightarrow> (Inl e, st1)
              | (Inr None, st1) \<Rightarrow>
                  (Inl (ValueError (msg_cannot_load_pre @ speaker @ msg_cannot_load_post_long)),
                   st1)
              | (Inr (Some prompt_speech_16k), st1) \<Rightarrow>
                  (inference_instruct2 env text i prompt_speech_16k streaming speed,
                   st1\<lparr>engine_calls := engine_calls st1 @
                          [Inference_instruct2 text i prompt_speech_16k streaming speed]\<rparr>))
         | None \<Rightarrow>
             (inference_sft env text speaker streaming speed,
              st\<lparr>engine_calls := engine_calls st @
                     [Inference_sft text speaker streaming speed]\<rparr>)))"

definition generate_tts_except :: "env \<Rightarrow> state \<Rightarrow> exc \<Rightarrow> exc \<times> state" where
  "generate_tts_except env st e =
     (let s = str_exc env e;
          st1 = logger_error st (msg_generation_failed @ s)
      in if contains ''memory'' (lower s) then (RuntimeError (msg_rt_memory @ s), st1)
         else if contains ''timeout'' (lower s) \<or> contains ''connection'' (lower s)
              then (RuntimeError (msg_rt_network @ s), st1)
         else if contains ''not implemented'' (lower s)
              then (RuntimeError (msg_rt_platform @ s), st1)
         else (RuntimeError (msg_rt_generic @ s), st1))"

definition generate_tts ::
  "env \<Rightarrow> service \<Rightarrow> state \<Rightarrow> string \<Rightarrow> string \<Rightarrow> string option \<Rightarrow> bool \<Rightarrow> real
     \<Rightarrow> (exc + gen) \<times> state" where
  "generate_tts env self st text speaker instruct streaming speed =
     (case generate_tts_try env self st text speaker instruct streaming speed of
        (Inr g, st1) \<Rightarrow> (Inr g, st1)
      | (Inl e, st1) \<Rightarrow>
          (case generate_tts_except env st1 e of (e', st2) \<Rightarrow> (Inl e', st2)))"

section \<open>The application (api/main.py)\<close>

definition get_tts_service :: "env \<Rightarrow> state \<Rightarrow> (exc + service) \<times> state" where
  "get_tts_service env st =
     (case tts_service st of
        Some s \<Rightarrow> (Inr s, st)
      | None \<Rightarrow>
          (case TTSService env st of
             (Inr s, st1) \<Rightarrow> (Inr s, st1\<lparr>tts_service := Some s\<rparr>)
           | (Inl e, st1) \<Rightarrow>
               (Inl (HTTPException 500 (msg_init_service_failed @ str_exc env e)),
                logger_error st1 (msg_init_service_failed @ str_exc env e))))"

text \<open>
  \<open>startup_event\<close>: when \<open>PRELOAD_MODEL\<close> holds, the service is built and the voices are
  listed; a failure is logged and the application starts all the same.
\<close>

definition startup_event :: "env \<Rightarrow> state \<Rightarrow> state" where
  "startup_event env st =
     (if PRELOAD_MODEL (environ_PRELOAD_MODEL env) then
        (case get_tts_service env st of
           (Inl e, st1) \<Rightarrow>
             logger_warning (logger_error st1 (msg_preload_failed @ str_exc env e))
               msg_load_on_first_request
         | (Inr s, st1) \<Rightarrow>
             (case get_available_voices env st1 of
                (Inl e, st2) \<Rightarrow>
                  logger_warning (logger_error st2 (msg_preload_failed @ str_exc env e))
                    msg_load_on_first_request
              | (Inr voices, st2) \<Rightarrow> st2))
      else st)"

text \<open>
  \<open>verify_api_key\<close>, for the path of the request and the value of its \<open>X-API-Key\<close> header.
\<close>

definition verify_api_key :: "string \<Rightarrow> string option \<Rightarrow> exc + bool" where
  "verify_api_key path api_key =
     (if \<not> ENABLE_API_AUTH then Inr True
      else if path \<in> set NO_AUTH_PATHS \<or>
              list_ex (\<lambda>p. p \<noteq> ''/'' \<and> prefix (p @ ''/'') path) NO_AUTH_PATHS
           then Inr True
      else
        (case api_key of
           None \<Rightarrow> Inl (HTTPException 401 msg_no_api_key)
         | Some k \<Rightarrow>
             if k = [] then Inl (HTTPException 401 msg_no_api_key)
             else if k \<notin> set API_KEYS then Inl (HTTPException 401 msg_bad_api_key)
             else Inr True))"

text \<open>
  \<open>inference_func\<close>, the closure of \<open>tts\<close>, with the variables it captures as arguments:
  its \<open>try\<close> block, then its handler.
\<close>

definition inference_func_try ::
  "env \<Rightarrow> service \<Rightarrow> state \<Rightarrow> string \<Rightarrow> string \<Rightarrow> string option \<Rightarrow> bool \<Rightarrow> real
     \<Rightarrow> (exc + gen) \<times> state" where
  "inference_func_try env service st text speaker instruct streaming_bool speed =
     (case (if instruct = Some [] then None else instruct) of
        Some i \<Rightarrow>
          (case load_voice_data env st speaker of
             (Inl e, st1) \<Rightarrow> (Inl e, st1)
           | (Inr None, st1) \<Rightarrow>
               (Inl (HTTPException 400 (msg_cannot_load_pre @ speaker @ msg_cannot_load_post)),
                st1)
           | (Inr (Some prompt_speech_16k), st1) \<Rightarrow>
               generate_tts env service st1 text speaker (Some i) streaming_bool speed)
      | None \<Rightarrow> generate_tts env service st text speaker None streaming_bool speed)"

definition inference_func_except :: "env \<Rightarrow> state \<Rightarrow> exc \<Rightarrow> exc \<times> state" where
  "inference_func_except env st e =
     (let st1 = logger_error st (msg_tts_failed @ str_exc env e);
          error_msg = str_exc env e
      in if contains ''model inputs'' error_msg then (ValueError msg_model_input_error, st1)
         else if contains ''memory'' error_msg then (ValueError msg_out_of_memory, st1)
         else if contains ''not found'' error_msg \<or> contains msg_voice error_msg
              then (ValueError (msg_voice_error @ error_msg), st1)
         else (e, st1))"

definition inference_func ::
  "env \<Rightarrow> service \<Rightarrow> state \<Rightarrow> string \<Rightarrow> string \<Rightarrow> string option \<Rightarrow> bool \<Rightarrow> real
     \<Rightarrow> (exc + gen) \<times> state" where
  "inference_func env service st text speaker instruct streaming_bool speed =
     (case inference_func_try env service st text speaker instruct streaming_bool speed of
        (Inr g, st1) \<Rightarrow> (Inr g, st1)
      | (Inl e, st1) \<Rightarrow>
          (case inference_func_except env st1 e of (e', st2) \<Rightarrow> (Inl e', st2)))"

text \<open>
  The streaming generator \<open>generate\<close>. \<open>generate_loop\<close> is the \<open>for\<close> loop of its \<open>try\<close>
  block over the engine's generator: each item is encoded on its own and yielded; the
  result is the exception that ended the loop, if one did, the pieces yielded before it,
  and the state.
\<close>

fun generate_loop :: "env \<Rightarrow> state \<Rightarrow> gen \<Rightarrow> exc option \<times> bytes list \<times> state" where
  "generate_loop env st Done = (None, [], st)"
| "generate_loop env st (Raise e) = (Some e, [], st)"
| "generate_loop env st (Yield out g) =
     (case process_audio env st [tts_speech out] 22050 ''ogg'' of
        (Inl e, st1) \<Rightarrow> (Some e, [], st1)
      | (Inr buffer, st1) \<Rightarrow>
          (case generate_loop env st1 g of
             (r, pieces, st2) \<Rightarrow> (r, buffer # pieces, st2)))"

definition generate_try ::
  "env \<Rightarrow> service \<Rightarrow> state \<Rightarrow> string \<Rightarrow> string \<Rightarrow> string option \<Rightarrow> bool \<Rightarrow> real
     \<Rightarrow> exc option \<times> bytes list \<times> state" where
  "generate_try env service st text speaker instruct streaming_bool speed =
     (case inference_func env service st text speaker instruct streaming_bool speed of
        (Inl e, st1) \<Rightarrow> (Some e, [], st1)
      | (Inr g, st1) \<Rightarrow> generate_loop env st1 g)"

text \<open>
  The handler of \<open>generate\<close> catches every \<open>Exception\<close> and logs it. The first component of
  the result is the exception that leaves the generator.
\<close>

definition generate_except ::
  "env \<Rightarrow> exc option \<times> bytes list \<times> state \<Rightarrow> exc option \<times> bytes list \<times> state" where
  "generate_except env r =
     (case r of
        (None, pieces, st) \<Rightarrow> (None, pieces, st)
      | (Some e, pieces, st) \<Rightarrow>
          (None, pieces, logger_error st (msg_stream_error @ str_exc env e)))"

definition generate ::
  "env \<Rightarrow> service \<Rightarrow> state \<Rightarrow> string \<Rightarrow> string \<Rightarrow> string option \<Rightarrow> bool \<Rightarrow> real
     \<Rightarrow> exc option \<times> bytes list \<times> state" where
  "generate env service st text speaker instruct streaming_bool speed =
     generate_except env
       (generate_try env service st text speaker instruct streaming_bool speed)"

text \<open>The comprehension \<open>[i['tts_speech'] for i in inference_func()]\<close> over the generator.\<close>

fun tts_speeches :: "gen \<Rightarrow> exc + tensor list" where
  "tts_speeches Done = Inr []"
| "tts_speeches (Raise e) = Inl e"
| "tts_speeches (Yield i g) =
     (case tts_speeches g of
        Inl e \<Rightarrow> Inl e
      | Inr speeches \<Rightarrow> Inr (tts_speech i # speeches))"

text \<open>
  Iterating \<open>io.BytesIO(data)\<close>, as \<open>StreamingResponse\<close> does to send it, gives the lines of
  \<open>data\<close>: each ends with its line feed, the last one may lack it.
\<close>

fun bytes_lines :: "bytes \<Rightarrow> bytes list" where
  "bytes_lines [] = []"
| "bytes_lines (b # bs) =
     (if b = 10 then [b] # bytes_lines bs
      else (case bytes_lines bs of
              [] \<Rightarrow> [[b]]
            | l # ls \<Rightarrow> (b # l) # ls))"

text \<open>The buffered output of \<open>tts\<close>, from the generator \<open>inference_func\<close> returned.\<close>

definition tts_buffered :: "env \<Rightarrow> state \<Rightarrow> gen \<Rightarrow> (exc + response) \<times> state" where
  "tts_buffered env st g =
     (case tts_speeches g of
        Inl e \<Rightarrow> (Inl e, st)
      | Inr speeches \<Rightarrow>
          (case process_audio env st speeches 22050 ''wav'' of
             (Inl e, st1) \<Rightarrow> (Inl e, st1)
           | (Inr buffer, st1) \<Rightarrow>
               (Inr (StreamingResponse 200 ''audio/wav'' ''sound.wav'' (bytes_lines buffer) None),
                st1)))"

text \<open>
  The second \<open>try\<close> block of \<open>tts\<close>. The body of a streaming response is produced while the
  response is sent; the model runs \<open>generate\<close> to its end as part of the request.
\<close>

definition tts_try ::
  "env \<Rightarrow> service \<Rightarrow> state \<Rightarrow> string \<Rightarrow> string \<Rightarrow> string option \<Rightarrow> int \<Rightarrow> real
     \<Rightarrow> (exc + response) \<times> state" where
  "tts_try env service st text speaker instruct streaming speed =
     (if text = [] \<or> speaker = [] then (Inl (HTTPException 400 msg_text_speaker_empty), st)
      else
        (case get_available_voices env st of
           (Inl e, st1) \<Rightarrow> (Inl e, st1)
         | (Inr available_voices, st1) \<Rightarrow>
             (let available_voice_ids = map voice_id available_voices in
              if speaker \<notin> set available_voice_ids then
                (let voice_list = join '', '' available_voice_ids
                 in (Inl (HTTPException 400
                            (msg_voice_id_pre @ speaker @ msg_voice_id_post @ voice_list)),
                     st1))
              else
                (let streaming_bool = (streaming \<noteq> 0) in
                 if streaming_bool then
                   (case generate env service st1 text speaker instruct streaming_bool speed of
                      (r, pieces, st2) \<Rightarrow>
                        (Inr (StreamingResponse 200 ''audio/ogg'' ''sound.ogg'' pieces r), st2))
                 else
                   (case inference_func env service st1 text speaker instruct
                           streaming_bool speed of
                      (Inl e, st2) \<Rightarrow> (Inl e, st2)
                    | (Inr g, st2) \<Rightarrow> tts_buffered env st2 g)))))"

text \<open>The three handlers of that block, in the order of the source.\<close>

fun tts_except :: "env \<Rightarrow> state \<Rightarrow> exc \<Rightarrow> exc \<times> state" where
  "tts_except env st (HTTPException status_code detail) = (HTTPException status_code detail, st)"
| "tts_except env st (ValueError m) =
     (HTTPException 400 m, logger_warning st (msg_input_validation @ m))"
| "tts_except env st e =
     (HTTPException 500 (msg_internal_error @ str_exc env e),
      logger_error st (msg_tts_processing @ str_exc env e))"

definition tts ::
  "env \<Rightarrow> state \<Rightarrow> string \<Rightarrow> string \<Rightarrow> string option \<Rightarrow> int \<Rightarrow> real
     \<Rightarrow> (exc + response) \<times> state" where
  "tts env st text speaker instruct streaming speed =
     (case get_tts_service env st of
        (Inl e, st1) \<Rightarrow>
          (Inl (HTTPException 500 (str_exc env e)),
           logger_error st1 (msg_get_service_failed @ str_exc env e))
      | (Inr service, st1) \<Rightarrow>
          (case tts_try env service st1 text speaker instruct streaming speed of
             (Inr response, st2) \<Rightarrow> (Inr response, st2)
           | (Inl e, st2) \<Rightarrow> (case tts_except env st2 e of (e', st3) \<Rightarrow> (Inl e', st3))))"

text \<open>
  The middleware \<open>limit_request_size\<close>, for the \<open>Content-Length\<close> header of the request
  (\<open>None\<close> when the request has none; the server accepts only a decimal number there): it
  answers status 413 itself, or lets the request go on (\<open>None\<close>).
\<close>

definition limit_request_size :: "nat option \<Rightarrow> response option" where
  "limit_request_size content_length =
     (let max_size = 16 * 1024 * 1024 in
      case content_length of
        None \<Rightarrow> None
      | Some n \<Rightarrow> if n > max_size then Some (JSONResponse 413 msg_too_large) else None)"

text \<open>
  The routes, as FastAPI runs them from their declarations. For \<open>GET /tts\<close> (and \<open>GET /\<close>):
  the middleware \<open>limit_request_size\<close>, then the dependency \<open>verify_api_key\<close>, then the
  constraints \<open>ge=0.5, le=2.0\<close> of the query parameter \<open>speed\<close>, whose violation is a
  \<open>RequestValidationError\<close> (answered with status 422 by \<open>validation_exception_handler\<close>),
  then \<open>tts\<close>. A float that is not a number fails both comparisons, so the speeds that pass
  are reals.
\<close>

definition validation_exception_handler :: "env \<Rightarrow> state \<Rightarrow> exc \<Rightarrow> (exc + response) \<times> state" where
  "validation_exception_handler env st e =
     (Inl e, logger_warning st (msg_validation_error @ str_exc env e))"

definition tts_get ::
  "env \<Rightarrow> state \<Rightarrow> nat option \<Rightarrow> string \<Rightarrow> string option \<Rightarrow> string \<Rightarrow> string \<Rightarrow>
     string option \<Rightarrow> int \<Rightarrow> real \<Rightarrow> (exc + response) \<times> state" where
  "tts_get env st content_length path api_key text speaker instruct streaming speed =
     (case limit_request_size content_length of
        Some too_large \<Rightarrow> (Inr too_large, st)
      | None \<Rightarrow>
          (case verify_api_key path api_key of
             Inl e \<Rightarrow> (Inl e, st)
           | Inr auth \<Rightarrow>
               if \<not> (0.5 \<le> speed \<and> speed \<le> 2.0)
               then validation_exception_handler env st (RequestValidationError [''speed''])
               else tts env st text speaker instruct streaming speed))"

text \<open>
  \<open>POST /tts\<close>: after the same middleware and dependency, the body is a \<open>TTSRequest\<close>,
  whose field \<open>speed\<close> has the same constraints and whose validators refuse a blank
  \<open>text\<close> or \<open>speaker\<close>; the fields are checked in the order of their declaration and the
  error names every field refused. \<open>tts_post\<close> then calls \<open>tts\<close>.
\<close>

record TTSRequest =
  req_text :: string
  req_speaker :: string
  req_instruct :: "string option"
  req_streaming :: bool
  req_speed :: real

definition TTSRequest_validate :: "TTSRequest \<Rightarrow> exc + TTSRequest" where
  "TTSRequest_validate r =
     (let errors =
            (if strip_empty (req_text r) then [''text''] else []) @
            (if strip_empty (req_speaker r) then [''speaker''] else []) @
            (if \<not> (0.5 \<le> req_speed r \<and> req_speed r \<le> 2.0) then [''speed''] else [])
      in if errors = [] then Inr r else Inl (RequestValidationError errors))"

definition tts_post ::
  "env \<Rightarrow> state \<Rightarrow> nat option \<Rightarrow> string \<Rightarrow> string option \<Rightarrow> TTSRequest
     \<Rightarrow> (exc + response) \<times> state" where
  "tts_post env st content_length path api_key r =
     (case limit_request_size content_length of
        Some too_large \<Rightarrow> (Inr too_large, st)
      | None \<Rightarrow>
          (case verify_api_key path api_key of
             Inl e \<Rightarrow> (Inl e, st)
           | Inr auth \<Rightarrow>
               (case TTSRequest_validate r of
                  Inl e \<Rightarrow> validation_exception_handler env st e
                | Inr request_data \<Rightarrow>
                    tts env st (req_text request_data) (req_speaker request_data)
                      (req_instruct request_data)
                      (if req_streaming request_data then 1 else 0)
                      (req_speed request_data))))"

text \<open>
  \<open>GET /health\<close>: the route declares no dependency and \<open>health_check\<close> takes no argument;
  it reads and writes nothing of the state.
\<close>

definition health_check :: "state \<Rightarrow> (string \<times> string) list \<times> state" where
  "health_check st = ([(''status'', ''healthy''), (''service'', ''CosyVoice2 API'')], st)"


section \<open>States and inputs\<close>

text \<open>
  The state when the modules have been imported: \<open>TTSService._instance = None\<close> and
  \<open>tts_service = None\<close>.
\<close>

definition init_state :: state where
  "init_state =
     \<lparr>cls_instance = None, tts_service = None, log = [], engine_calls = [], encoded = []\<rparr>"

text \<open>
  The global \<open>tts_service\<close> is only ever assigned the result of \<open>TTSService()\<close>, which is
  the initialised \<open>_instance\<close>: a state is \<open>consistent\<close> when the two agree.
\<close>

definition consistent :: "state \<Rightarrow> bool" where
  "consistent st =
     (case tts_service st of
        None \<Rightarrow> True
      | Some s \<Rightarrow> cls_instance st = Some s \<and> initialized s)"

text \<open>
  The generator that yields the items of \<open>chunks\<close> in order and then ends (\<open>err = None\<close>)
  or raises (\<open>err = Some e\<close>).
\<close>

definition gen_of :: "chunk list \<Rightarrow> exc option \<Rightarrow> gen" where
  "gen_of chunks err = foldr Yield chunks (case err of None \<Rightarrow> Done | Some e \<Rightarrow> Raise e)"

text \<open>The tensors of a list have the same number of channels.\<close>

definition same_channels :: "tensor list \<Rightarrow> bool" where
  "same_channels tensors =
     list_all (\<lambda>u. list_all (\<lambda>v. shape0 u = shape0 v) tensors) tensors"

text \<open>
  Starlette prints an \<open>HTTPException\<close> as \<open><status_code>: <detail>\<close>; \<open>str_nat\<close> is the
  decimal numeral of a natural number.
\<close>

function str_nat :: "nat \<Rightarrow> string" where
  "str_nat n =
     (if n < 10 then [''0123456789'' ! n]
      else str_nat (n div 10) @ [''0123456789'' ! (n mod 10)])"
  by pat_completeness auto
termination
  by (relation "measure id") auto

declare str_nat.simps [simp del]

definition starlette_str :: "nat \<Rightarrow> string \<Rightarrow> string" where
  "starlette_str status_code detail = str_nat status_code @ '': '' @ detail"

text \<open>
  A deployment used to run the model on concrete requests: the engine has the built-in
  voice \<open>alice\<close>; the voices directory holds \<open>bob.pt\<close>, with reference audio, and a file
  that is no voice; \<open>PRELOAD_MODEL=false\<close> is set. The engine yields two chunks of two and
  three samples for a plain request and one chunk for an instructed one; the stand-in
  encoder writes one zero byte per sample.
\<close>

definition demo_env :: env where
  "demo_env =
     \<lparr>environ_PRELOAD_MODEL = Some ''false'',
      MODEL_PATH = ''pretrained_models/CosyVoice2-0.5B'',
      model_path_exists = True,
      load_model = None,
      list_available_spks = [''alice''],
      voices_dir_exists = True,
      listdir = [''bob.pt'', ''readme.txt''],
      voice_file =
        (\<lambda>speaker. if speaker = ''bob'' then Some (VoiceData (Some [[0.5, 0.25]])) else None),
      inference_sft =
        (\<lambda>text speaker stream speed.
           Inr (Yield \<lparr>tts_speech = [[1, 2]]\<rparr> (Yield \<lparr>tts_speech = [[3, 4, 5]]\<rparr> Done))),
      inference_instruct2 =
        (\<lambda>text instruct prompt stream speed. Inr (Yield \<lparr>tts_speech = [[6]]\<rparr> Done)),
      torch_empty_error = RuntimeError ''torch.cat(): expected a non-empty list of Tensors'',
      torch_size_error =
        (\<lambda>tensors. RuntimeError ''Sizes of tensors must match except in dimension 1.''),
      torchaudio_save = (\<lambda>audio_data sample_rate fmt. Inr (replicate (shape1 audio_data) 0)),
      http_str = starlette_str,
      validation_str = (\<lambda>params. join '', '' params)\<rparr>"


text \<open>The same deployment with a file \<open>alice.pt\<close> in the voices directory.\<close>

definition collide_env :: env where
  "collide_env = demo_env\<lparr>listdir := [''alice.pt'', ''bob.pt'']\<rparr>"

text \<open>The same deployment when the engine fails after its second chunk.\<close>

definition failing_env :: env where
  "failing_env =
     demo_env\<lparr>inference_sft :=
       (\<lambda>text speaker stream speed.
          Inr (Yield \<lparr>tts_speech = [[1, 2]]\<rparr> (Yield \<lparr>tts_speech = [[3, 4, 5]]\<rparr>
                 (Raise (OtherException ''CUDA error: device-side assert triggered'')))))\<rparr>"

text \<open>The same deployment after \<open>carol.pt\<close> has been put into the voices directory.\<close>

definition added_env :: env where
  "added_env =
     demo_env\<lparr>listdir := [''bob.pt'', ''readme.txt'', ''carol.pt''],
              voice_file :=
                (\<lambda>speaker. if speaker = ''bob'' \<or> speaker = ''carol''
                   then Some (VoiceData (Some [[0.5, 0.25]])) else None)\<rparr>"

text \<open>A deployment whose model folder is missing.\<close>

definition broken_env :: env where
  "broken_env = demo_env\<lparr>model_path_exists := False\<rparr>"

text \<open>The same deployment when the engine yields no chunk at all.\<close>

definition silent_env :: env where
  "silent_env = demo_env\<lparr>inference_sft := (\<lambda>text speaker stream speed. Inr Done)\<rparr>"

text \<open>The same deployment when the engine's built-in voice is called \<open>memory\<close>.\<close>

definition memory_env :: env where
  "memory_env = demo_env\<lparr>list_available_spks := [''memory'']\<rparr>"

section \<open>Properties of the operations\<close>

lemma contains_sublist: "contains sub s = sublist sub s"
  by (induction s) (auto simp: sublist_Cons_right)

subsection \<open>What each operation leaves unchanged\<close>

lemma logger_error_frame [simp]:
  "engine_calls (logger_error st m) = engine_calls st"
  "encoded (logger_error st m) = encoded st"
  "tts_service (logger_error st m) = tts_service st"
  "cls_instance (logger_error st m) = cls_instance st"
  "log (logger_error st m) = log st @ [(ERROR, m)]"
  by (simp_all add: logger_error_def)

lemma logger_warning_frame [simp]:
  "engine_calls (logger_warning st m) = engine_calls st"
  "encoded (logger_warning st m) = encoded st"
  "tts_service (logger_warning st m) = tts_service st"
  "cls_instance (logger_warning st m) = cls_instance st"
  "log (logger_warning st m) = log st @ [(WARNING, m)]"
  by (simp_all add: logger_warning_def)

lemma load_voice_data_frame:
  assumes "load_voice_data env st speaker = (r, st')"
  shows "engine_calls st' = engine_calls st" and "encoded st' = encoded st"
  using assms
  by (auto simp: load_voice_data_def split: option.splits voice_file.splits)

lemma load_voice_data_None:
  assumes "fst (load_voice_data env st speaker) = Inr None"
  shows "load_voice_data env st' speaker = (Inr None, st')"
  using assms
  by (auto simp: load_voice_data_def split: option.splits voice_file.splits)

lemma initialize_model_frame:
  assumes "initialize_model env st = (r, st')"
  shows "engine_calls st' = engine_calls st" and "encoded st' = encoded st"
    and "tts_service st' = tts_service st" and "cls_instance st' = cls_instance st"
  using assms
  by (auto simp: initialize_model_def Let_def split: if_splits option.splits)

lemma initialize_model_Inr:
  assumes "initialize_model env st = (Inr s, st')"
  shows "initialized s" and "default_voices s = list_available_spks env"
    and "spk_custom s = (if voices_dir_exists env then scan_voices (listdir env) else [])"
  using assms
  by (auto simp: initialize_model_def Let_def split: if_splits option.splits)

lemma TTSService_frame:
  assumes "TTSService env st = (r, st')"
  shows "engine_calls st' = engine_calls st" and "encoded st' = encoded st"
    and "tts_service st' = tts_service st"
proof -
  let ?self = "case cls_instance st of
                 None \<Rightarrow> \<lparr>initialized = False, default_voices = [], spk_custom = []\<rparr>
               | Some s \<Rightarrow> s"
  let ?st1 = "st\<lparr>cls_instance := Some ?self\<rparr>"
  obtain r2 st2 where im: "initialize_model env ?st1 = (r2, st2)"
    by (cases "initialize_model env ?st1")
  from initialize_model_frame[OF im] have fr:
    "engine_calls st2 = engine_calls st" "encoded st2 = encoded st"
    "tts_service st2 = tts_service st" by simp_all
  from assms im have "st' = ?st1 \<or> st' = st2 \<or> (\<exists>s. st' = st2\<lparr>cls_instance := Some s\<rparr>)"
    by (cases r2; cases "initialized ?self") (auto simp: TTSService_def Let_def)
  with fr have "engine_calls st' = engine_calls st \<and> encoded st' = encoded st
    \<and> tts_service st' = tts_service st" by auto
  then show "engine_calls st' = engine_calls st" and "encoded st' = encoded st"
    and "tts_service st' = tts_service st" by simp_all
qed

lemma TTSService_Inr:
  assumes "TTSService env st = (Inr s, st')"
  shows "cls_instance st' = Some s" and "initialized s"
  using assms
  by (auto simp: TTSService_def Let_def split: if_splits prod.splits sum.splits option.splits
           dest: initialize_model_Inr(1))

lemma TTSService_initialized:
  assumes "cls_instance st = Some s" and "initialized s"
  shows "TTSService env st = (Inr s, st)"
  using assms by (simp add: TTSService_def Let_def)

lemma get_available_voices_frame:
  assumes "get_available_voices env st = (r, st')"
  shows "engine_calls st' = engine_calls st" and "encoded st' = encoded st"
    and "tts_service st' = tts_service st"
proof -
  obtain r1 st1 where t: "TTSService env st = (r1, st1)" by (cases "TTSService env st")
  with assms have "st' = st1" by (cases r1) (auto simp: get_available_voices_def)
  with TTSService_frame[OF t] show "engine_calls st' = engine_calls st"
    and "encoded st' = encoded st" and "tts_service st' = tts_service st" by simp_all
qed

lemma get_available_voices_ids:
  assumes "get_available_voices env st = (Inr voices, st')"
  shows "map voice_id voices =
           list_available_spks env @
           (if voices_dir_exists env then scan_voices (listdir env) else [])"
  using assms
  by (auto simp: get_available_voices_def comp_def split: prod.splits sum.splits)

lemma get_available_voices_initialized:
  assumes "cls_instance st = Some s" and "initialized s"
  shows "\<exists>voices. get_available_voices env st = (Inr voices, st)"
  using TTSService_initialized[OF assms, of env] by (simp add: get_available_voices_def)

lemma get_tts_service_frame:
  assumes "get_tts_service env st = (r, st')"
  shows "engine_calls st' = engine_calls st" and "encoded st' = encoded st"
proof -
  obtain r1 st1 where t: "TTSService env st = (r1, st1)" by (cases "TTSService env st")
  from assms t have "st' = st \<or> st' = logger_error st1 (msg_init_service_failed @ str_exc env (projl r1))
      \<or> (\<exists>s. st' = st1\<lparr>tts_service := Some s\<rparr>)"
    by (cases r1; cases "tts_service st") (auto simp: get_tts_service_def)
  with TTSService_frame[OF t] have "engine_calls st' = engine_calls st \<and> encoded st' = encoded st"
    by auto
  then show "engine_calls st' = engine_calls st" and "encoded st' = encoded st" by simp_all
qed

lemma process_audio_frame:
  assumes "process_audio env st ts sr fmt = (r, st')"
  shows "engine_calls st' = engine_calls st" and "log st' = log st"
  using assms by (auto simp: process_audio_def split: sum.splits)

lemma generate_tts_except_frame:
  assumes "generate_tts_except env st e = (e', st')"
  shows "engine_calls st' = engine_calls st" and "encoded st' = encoded st"
    and "\<exists>p. e' = RuntimeError (p @ str_exc env e)"
  using assms by (auto simp: generate_tts_except_def Let_def split: if_splits)

lemma generate_tts_try_calls:
  assumes "generate_tts_try env self st text speaker instruct streaming speed = (r, st')"
  shows "engine_calls st' = engine_calls st \<or>
         (\<exists>c. engine_calls st' = engine_calls st @ [c] \<and> call_speed c = speed)"
  using assms
  by (auto simp: generate_tts_try_def Let_def
           split: if_splits option.splits prod.splits sum.splits
           dest: load_voice_data_frame(1))

lemma generate_tts_calls:
  assumes "generate_tts env self st text speaker instruct streaming speed = (r, st')"
  shows "engine_calls st' = engine_calls st \<or>
         (\<exists>c. engine_calls st' = engine_calls st @ [c] \<and> call_speed c = speed)"
proof -
  obtain r1 st1 where t: "generate_tts_try env self st text speaker instruct streaming speed = (r1, st1)"
    by (cases "generate_tts_try env self st text speaker instruct streaming speed")
  show ?thesis
  proof (cases r1)
    case (Inr g)
    with assms t have "st' = st1" by (simp add: generate_tts_def)
    with generate_tts_try_calls[OF t] show ?thesis by simp
  next
    case (Inl e)
    obtain e' st2 where x: "generate_tts_except env st1 e = (e', st2)"
      by (cases "generate_tts_except env st1 e")
    with assms t Inl have "st' = st2" by (simp add: generate_tts_def)
    with generate_tts_except_frame(1)[OF x] generate_tts_try_calls[OF t] show ?thesis by simp
  qed
qed

lemma inference_func_except_frame:
  assumes "inference_func_except env st e = (e', st')"
  shows "engine_calls st' = engine_calls st" and "encoded st' = encoded st"
  using assms by (auto simp: inference_func_except_def Let_def split: if_splits)

lemma inference_func_try_calls:
  assumes "inference_func_try env service st text speaker instruct b speed = (r, st')"
  shows "engine_calls st' = engine_calls st \<or>
         (\<exists>c. engine_calls st' = engine_calls st @ [c] \<and> call_speed c = speed)"
proof (cases "if instruct = Some [] then None else instruct")
  case None
  with assms show ?thesis
    by (auto simp: inference_func_try_def dest: generate_tts_calls)
next
  case (Some i)
  obtain r1 st1 where l: "load_voice_data env st speaker = (r1, st1)"
    by (cases "load_voice_data env st speaker")
  note fr = load_voice_data_frame(1)[OF l]
  show ?thesis
  proof (cases r1)
    case (Inl e)
    with assms Some l fr show ?thesis by (simp add: inference_func_try_def)
  next
    case (Inr a)
    show ?thesis
    proof (cases a)
      case None
      with assms Some l fr Inr show ?thesis by (simp add: inference_func_try_def)
    next
      case (Some p)
      with assms \<open>(if instruct = Some [] then None else instruct) = Some i\<close> l Inr
      have "generate_tts env service st1 text speaker (Some i) b speed = (r, st')"
        by (simp add: inference_func_try_def)
      from generate_tts_calls[OF this] fr show ?thesis by simp
    qed
  qed
qed

lemma inference_func_calls:
  assumes "inference_func env service st text speaker instruct b speed = (r, st')"
  shows "engine_calls st' = engine_calls st \<or>
         (\<exists>c. engine_calls st' = engine_calls st @ [c] \<and> call_speed c = speed)"
proof -
  obtain r1 st1 where t: "inference_func_try env service st text speaker instruct b speed = (r1, st1)"
    by (cases "inference_func_try env service st text speaker instruct b speed")
  show ?thesis
  proof (cases r1)
    case (Inr g)
    with assms t have "st' = st1" by (simp add: inference_func_def)
    with inference_func_try_calls[OF t] show ?thesis by simp
  next
    case (Inl e)
    obtain e' st2 where x: "inference_func_except env st1 e = (e', st2)"
      by (cases "inference_func_except env st1 e")
    with assms t Inl have "st' = st2" by (simp add: inference_func_def)
    with inference_func_except_frame(1)[OF x] inference_func_try_calls[OF t] show ?thesis by simp
  qed
qed

lemma generate_loop_frame:
  "generate_loop env st g = (r, pieces, st') \<Longrightarrow>
     engine_calls st' = engine_calls st \<and> log st' = log st"
proof (induction g arbitrary: st r pieces st')
  case Done
  then show ?case by simp
next
  case (Raise e)
  then show ?case by simp
next
  case (Yield out g)
  obtain r1 st1 where p: "process_audio env st [tts_speech out] 22050 ''ogg'' = (r1, st1)"
    by (cases "process_audio env st [tts_speech out] 22050 ''ogg''")
  note fr = process_audio_frame[OF p]
  show ?case
  proof (cases r1)
    case (Inl e)
    with Yield.prems p fr show ?thesis by simp
  next
    case (Inr buffer)
    obtain r2 ps2 st2 where l: "generate_loop env st1 g = (r2, ps2, st2)"
      by (cases "generate_loop env st1 g")
    with Yield.prems p Inr have "st' = st2" by simp
    with Yield.IH[OF l] fr show ?thesis by simp
  qed
qed

lemma generate_calls:
  assumes "generate env service st text speaker instruct b speed = (r, pieces, st')"
  shows "engine_calls st' = engine_calls st \<or>
         (\<exists>c. engine_calls st' = engine_calls st @ [c] \<and> call_speed c = speed)"
    and "r = None"
proof -
  obtain r1 st1 where i: "inference_func env service st text speaker instruct b speed = (r1, st1)"
    by (cases "inference_func env service st text speaker instruct b speed")
  obtain r2 ps2 st2 where t: "generate_try env service st text speaker instruct b speed = (r2, ps2, st2)"
    by (cases "generate_try env service st text speaker instruct b speed")
  have "engine_calls st2 = engine_calls st1"
  proof (cases r1)
    case (Inl e)
    with i t show ?thesis by (simp add: generate_try_def)
  next
    case (Inr g)
    with i t have "generate_loop env st1 g = (r2, ps2, st2)" by (simp add: generate_try_def)
    from generate_loop_frame[OF this] show ?thesis by simp
  qed
  moreover from assms t have "engine_calls st' = engine_calls st2" and rn: "r = None"
    by (cases r2; auto simp: generate_def generate_except_def)+
  ultimately show "engine_calls st' = engine_calls st \<or>
         (\<exists>c. engine_calls st' = engine_calls st @ [c] \<and> call_speed c = speed)"
    using inference_func_calls[OF i] by simp
  show "r = None" by (rule rn)
qed

lemma tts_buffered_frame:
  assumes "tts_buffered env st g = (r, st')"
  shows "engine_calls st' = engine_calls st"
  using assms
  by (auto simp: tts_buffered_def split: sum.splits prod.splits dest: process_audio_frame(1))

lemma tts_except_frame:
  assumes "tts_except env st e = (e', st')"
  shows "engine_calls st' = engine_calls st" and "\<exists>code detail. e' = HTTPException code detail"
  using assms by (cases e; auto)+

subsection \<open>An instruction without reference audio\<close>

lemma get_tts_service_Inr:
  assumes "get_tts_service env st = (Inr s, st')" and "consistent st"
  shows "cls_instance st' = Some s" and "initialized s" and "tts_service st' = Some s"
  using assms
  by (auto simp: get_tts_service_def consistent_def
           split: option.splits prod.splits sum.splits dest: TTSService_Inr)

lemma inference_func_no_reference:
  assumes "instruct = Some i" and "i \<noteq> []"
    and "fst (load_voice_data env st0 speaker) = Inr None"
  shows "\<exists>e' st'. inference_func env service st text speaker instruct b speed = (Inl e', st')
           \<and> engine_calls st' = engine_calls st
           \<and> ((\<exists>detail. e' = HTTPException 400 detail) \<or> (\<exists>m. e' = ValueError m))"
proof -
  let ?e = "HTTPException 400 (msg_cannot_load_pre @ speaker @ msg_cannot_load_post)"
  from assms(3) have "load_voice_data env st speaker = (Inr None, st)"
    by (rule load_voice_data_None)
  with assms(1,2) have t: "inference_func_try env service st text speaker instruct b speed = (Inl ?e, st)"
    by (simp add: inference_func_try_def)
  obtain e' st' where x: "inference_func_except env st ?e = (e', st')"
    by (cases "inference_func_except env st ?e")
  then have "(\<exists>detail. e' = HTTPException 400 detail) \<or> (\<exists>m. e' = ValueError m)"
    by (auto simp: inference_func_except_def Let_def split: if_splits)
  moreover from t x have "inference_func env service st text speaker instruct b speed = (Inl e', st')"
    by (simp add: inference_func_def)
  moreover note inference_func_except_frame(1)[OF x]
  ultimately show ?thesis by blast
qed

lemma generate_tts_no_reference:
  assumes "instruct = Some i" and "i \<noteq> []"
    and "fst (load_voice_data env st0 speaker) = Inr None"
  shows "\<exists>m st'. generate_tts env self st text speaker instruct b speed = (Inl (RuntimeError m), st')
           \<and> engine_calls st' = engine_calls st"
proof -
  from assms(3) have l: "load_voice_data env st speaker = (Inr None, st)"
    by (rule load_voice_data_None)
  have "\<exists>e. generate_tts_try env self st text speaker instruct b speed = (Inl e, st)"
    using assms(1,2) l by (simp add: generate_tts_try_def Let_def)
  then obtain e where t: "generate_tts_try env self st text speaker instruct b speed = (Inl e, st)" ..
  obtain e' st' where x: "generate_tts_except env st e = (e', st')"
    by (cases "generate_tts_except env st e")
  from generate_tts_except_frame[OF x] t x show ?thesis
    by (auto simp: generate_tts_def)
qed

lemma tts_try_no_reference:
  assumes "instruct = Some i" and "i \<noteq> []"
    and "fst (load_voice_data env st0 speaker) = Inr None"
  shows "engine_calls (snd (tts_try env service st text speaker instruct streaming speed))
           = engine_calls st"
    and "streaming = 0 \<Longrightarrow> cls_instance st = Some s \<Longrightarrow> initialized s \<Longrightarrow>
         (\<exists>detail. fst (tts_try env service st text speaker instruct streaming speed)
                      = Inl (HTTPException 400 detail)) \<or>
         (\<exists>m. fst (tts_try env service st text speaker instruct streaming speed)
                      = Inl (ValueError m))"
proof -
  obtain r1 st1 where g: "get_available_voices env st = (r1, st1)"
    by (cases "get_available_voices env st")
  note fr = get_available_voices_frame(1)[OF g]
  have inf: "\<And>b. \<exists>e' st'. inference_func env service st1 text speaker instruct b speed = (Inl e', st')
           \<and> engine_calls st' = engine_calls st1
           \<and> ((\<exists>detail. e' = HTTPException 400 detail) \<or> (\<exists>m. e' = ValueError m))"
    by (rule inference_func_no_reference[OF assms])
  show "engine_calls (snd (tts_try env service st text speaker instruct streaming speed))
           = engine_calls st"
  proof (cases r1)
    case (Inl e)
    with g fr show ?thesis by (simp add: tts_try_def)
  next
    case (Inr voices)
    obtain r ps st2 where gen: "generate env service st1 text speaker instruct True speed = (r, ps, st2)"
      by (cases "generate env service st1 text speaker instruct True speed")
    from inf[of True] obtain e' st' where
      i: "inference_func env service st1 text speaker instruct True speed = (Inl e', st')"
      and c: "engine_calls st' = engine_calls st1" by blast
    from gen i have "st2 = logger_error st' (msg_stream_error @ str_exc env e')"
      by (simp add: generate_def generate_try_def generate_except_def)
    with c have "engine_calls st2 = engine_calls st1" by simp
    with inf[of False] g Inr fr gen show ?thesis
      by (auto simp: tts_try_def Let_def)
  qed
  show "(\<exists>detail. fst (tts_try env service st text speaker instruct streaming speed)
                      = Inl (HTTPException 400 detail)) \<or>
         (\<exists>m. fst (tts_try env service st text speaker instruct streaming speed)
                      = Inl (ValueError m))"
    if "streaming = 0" and "cls_instance st = Some s" and "initialized s"
  proof -
    from get_available_voices_initialized[OF that(2,3), of env] g
    obtain voices where "r1 = Inr voices" by auto
    with inf[of False] g that(1) show ?thesis
      by (auto simp: tts_try_def Let_def)
  qed
qed

text \<open>
  With a non-empty instruction and no reference audio, no request calls the model; a
  request without streaming is answered with status 400; \<open>generate_tts\<close> raises.
\<close>

lemma no_reference_audio_no_engine_call:
  assumes "instruct = Some i" and "i \<noteq> []"
    and "fst (load_voice_data env st speaker) = Inr None"
  shows "engine_calls (snd (tts env st text speaker instruct streaming speed)) = engine_calls st
       \<and> (streaming = 0 \<and> consistent st \<and> \<not> isl (fst (get_tts_service env st)) \<longrightarrow>
            (\<exists>detail. fst (tts env st text speaker instruct streaming speed)
                         = Inl (HTTPException 400 detail)))
       \<and> (\<exists>m. fst (generate_tts env self st text speaker instruct b speed)
                 = Inl (RuntimeError m))
       \<and> engine_calls (snd (generate_tts env self st text speaker instruct b speed))
           = engine_calls st"
proof -
  obtain r0 st0 where gs: "get_tts_service env st = (r0, st0)"
    by (cases "get_tts_service env st")
  note f0 = get_tts_service_frame(1)[OF gs]
  have calls: "engine_calls (snd (tts env st text speaker instruct streaming speed)) = engine_calls st"
  proof (cases r0)
    case (Inl e)
    with gs f0 show ?thesis by (simp add: tts_def)
  next
    case (Inr service)
    obtain r1 st1 where tt: "tts_try env service st0 text speaker instruct streaming speed = (r1, st1)"
      by (cases "tts_try env service st0 text speaker instruct streaming speed")
    from tts_try_no_reference(1)[OF assms, of service st0 "text" streaming speed] tt
    have c1: "engine_calls st1 = engine_calls st0" by simp
    obtain e' st6 where x: "tts_except env st1 (projl r1) = (e', st6)"
      by (cases "tts_except env st1 (projl r1)")
    from gs Inr tt x have "snd (tts env st text speaker instruct streaming speed) = st1 \<or>
       snd (tts env st text speaker instruct streaming speed) = st6"
      by (cases r1) (simp_all add: tts_def)
    with c1 f0 tts_except_frame(1)[OF x] show ?thesis by auto
  qed
  have status: "\<exists>detail. fst (tts env st text speaker instruct streaming speed)
                         = Inl (HTTPException 400 detail)"
    if "streaming = 0" and "consistent st" and "\<not> isl (fst (get_tts_service env st))"
  proof -
    from that(3) gs obtain service where r0: "r0 = Inr service" by (cases r0) auto
    from gs r0 have gs': "get_tts_service env st = (Inr service, st0)" by simp
    from get_tts_service_Inr[OF gs' that(2)]
    have inst: "cls_instance st0 = Some service" "initialized service" by simp_all
    from tts_try_no_reference(2)[OF assms that(1) inst, of service "text" speed]
    show ?thesis
      using gs r0 by (auto simp: tts_def split: prod.splits)
  qed
  from generate_tts_no_reference[OF assms, of self st "text" b speed]
  have "(\<exists>m. fst (generate_tts env self st text speaker instruct b speed) = Inl (RuntimeError m))
       \<and> engine_calls (snd (generate_tts env self st text speaker instruct b speed)) = engine_calls st"
    by auto
  with calls status show ?thesis by blast
qed

subsection \<open>Running the model\<close>

text \<open>
  The definitions that the simplifier unfolds to run the model on a concrete request.
\<close>

lemmas model_defs =
  demo_env_def init_state_def starlette_str_def str_nat.simps
  limit_request_size_def
  tts_def tts_try_def tts_buffered_def generate_def generate_try_def generate_except_def
  inference_func_def inference_func_try_def inference_func_except_def
  generate_tts_def generate_tts_try_def generate_tts_except_def
  get_tts_service_def get_available_voices_def TTSService_def initialize_model_def
  load_voice_data_def process_audio_def torch_concat_def shape0_def shape1_def
  logger_error_def logger_warning_def endswith_def Let_def

subsection \<open>The calls a request makes on the model\<close>

lemma tts_calls:
  "engine_calls (snd (tts env st text speaker instruct streaming speed)) = engine_calls st \<or>
   (\<exists>c. engine_calls (snd (tts env st text speaker instruct streaming speed))
           = engine_calls st @ [c] \<and> call_speed c = speed)"
proof -
  obtain r0 st0 where gs: "get_tts_service env st = (r0, st0)"
    by (cases "get_tts_service env st")
  note f0 = get_tts_service_frame(1)[OF gs]
  show ?thesis
  proof (cases r0)
    case (Inl e)
    with gs f0 show ?thesis by (simp add: tts_def)
  next
    case (Inr service)
    obtain r1 st1 where tt: "tts_try env service st0 text speaker instruct streaming speed = (r1, st1)"
      by (cases "tts_try env service st0 text speaker instruct streaming speed")
    have c1: "engine_calls st1 = engine_calls st0 \<or>
         (\<exists>c. engine_calls st1 = engine_calls st0 @ [c] \<and> call_speed c = speed)"
    proof -
      obtain r2 st2 where g: "get_available_voices env st0 = (r2, st2)"
        by (cases "get_available_voices env st0")
      note f2 = get_available_voices_frame(1)[OF g]
      obtain r3 ps3 st3 where gen:
        "generate env service st2 text speaker instruct True speed = (r3, ps3, st3)"
        by (cases "generate env service st2 text speaker instruct True speed")
      obtain r4 st4 where inf:
        "inference_func env service st2 text speaker instruct False speed = (r4, st4)"
        by (cases "inference_func env service st2 text speaker instruct False speed")
      obtain r5 st5 where buf: "tts_buffered env st4 (projr r4) = (r5, st5)"
        by (cases "tts_buffered env st4 (projr r4)")
      from tt g gen inf buf have "st1 = st0 \<or> st1 = st2 \<or> st1 = st3 \<or> st1 = st4 \<or> st1 = st5"
        by (cases r2; cases r4) (auto simp: tts_try_def Let_def split: if_splits)
      with f2 generate_calls(1)[OF gen] inference_func_calls[OF inf] tts_buffered_frame[OF buf]
      show ?thesis by auto
    qed
    obtain e' st6 where x: "tts_except env st1 (projl r1) = (e', st6)"
      by (cases "tts_except env st1 (projl r1)")
    from gs Inr tt x have "snd (tts env st text speaker instruct streaming speed) = st1 \<or>
       snd (tts env st text speaker instruct streaming speed) = st6"
      by (cases r1) (simp_all add: tts_def)
    with c1 f0 tts_except_frame(1)[OF x] show ?thesis by auto
  qed
qed

subsection \<open>Generators and tensors\<close>

lemma gen_of_Nil [simp]: "gen_of [] None = Done" "gen_of [] (Some e) = Raise e"
  by (simp_all add: gen_of_def)

lemma gen_of_Cons [simp]: "gen_of (c # cs) err = Yield c (gen_of cs err)"
  by (simp add: gen_of_def)

lemma tts_speeches_gen_of:
  "tts_speeches (gen_of chunks err) =
     (case err of None \<Rightarrow> Inr (map tts_speech chunks) | Some e \<Rightarrow> Inl e)"
  by (induction chunks) (auto split: option.splits)

lemma torch_concat_single: "torch_concat env [t] = Inr t"
  by (simp add: torch_concat_def shape0_def map_nth)

lemma torch_concat_Inr:
  assumes "torch_concat env tensors = Inr audio_data"
  shows "tensors \<noteq> []"
    and "\<forall>u \<in> set tensors. shape0 u = shape0 audio_data"
    and "audio_data = map (\<lambda>i. concat (map (\<lambda>u. u ! i) tensors)) [0..<shape0 audio_data]"
  using assms
  by (auto simp: torch_concat_def shape0_def list_all_iff split: list.splits if_splits)

lemma length_concat_rows:
  assumes "\<forall>u \<in> set tensors. rectangular u \<and> i < shape0 u"
  shows "length (concat (map (\<lambda>u. u ! i) tensors)) = sum_list (map shape1 tensors)"
  using assms
proof (induction tensors)
  case Nil
  then show ?case by simp
next
  case (Cons u us)
  then have "rectangular u" and "i < length u" by (simp_all add: shape0_def)
  then have "length (u ! i) = shape1 u"
    by (simp add: rectangular_def list_all_length)
  with Cons show ?case by simp
qed

lemma shape1_empty: "shape0 u = 0 \<Longrightarrow> shape1 u = 0"
  by (simp add: shape0_def shape1_def)

lemma torch_concat_shape1:
  assumes "torch_concat env tensors = Inr audio_data"
    and "list_all rectangular tensors"
  shows "shape1 audio_data = sum_list (map shape1 tensors)" and "rectangular audio_data"
proof -
  note c = torch_concat_Inr[OF assms(1)]
  let ?n = "shape0 audio_data"
  have rows: "length (concat (map (\<lambda>u. u ! i) tensors)) = sum_list (map shape1 tensors)"
    if "i < ?n" for i
    using that c(2) assms(2) by (intro length_concat_rows) (auto simp: list_all_iff)
  show "shape1 audio_data = sum_list (map shape1 tensors)"
  proof (cases "?n = 0")
    case True
    with c(2) have "\<forall>u \<in> set tensors. shape1 u = 0" by (auto intro: shape1_empty)
    then have "sum_list (map shape1 tensors) = 0" by (induction tensors) auto
    with True show ?thesis by (simp add: shape1_empty)
  next
    case False
    then have "audio_data \<noteq> []" by (auto simp: shape0_def)
    then have "shape1 audio_data = length (audio_data ! 0)"
      by (cases audio_data) (simp_all add: shape1_def)
    also have "audio_data ! 0 = concat (map (\<lambda>u. u ! 0) tensors)"
      using False by (subst c(3)) simp
    also have "length \<dots> = sum_list (map shape1 tensors)" using False by (intro rows) simp
    finally show ?thesis .
  qed
  then show "rectangular audio_data"
    unfolding rectangular_def list_all_length
  proof (intro allI impI)
    fix i assume "i < length audio_data"
    then have i: "i < ?n" by (simp add: shape0_def)
    then have "audio_data ! i = concat (map (\<lambda>u. u ! i) tensors)"
      by (subst c(3)) simp
    with rows[OF i] \<open>shape1 audio_data = sum_list (map shape1 tensors)\<close>
    show "length (audio_data ! i) = shape1 audio_data" by simp
  qed
qed

lemma concat_bytes_lines: "concat (bytes_lines bs) = bs"
  by (induction bs) (auto split: list.splits)

lemma same_channels_Cons:
  "same_channels (t # rest) \<longleftrightarrow> list_all (\<lambda>u. shape0 u = shape0 t) rest"
  by (auto simp: same_channels_def list_all_iff)

lemma torch_concat_Inr_iff:
  "(\<exists>audio_data. torch_concat env tensors = Inr audio_data)
     \<longleftrightarrow> tensors \<noteq> [] \<and> same_channels tensors"
  by (cases tensors) (auto simp: torch_concat_def same_channels_Cons)

lemma tts_buffered_fails:
  assumes "torch_concat env (map tts_speech chunks) = Inl e"
  shows "tts_buffered env st (gen_of chunks None) = (Inl e, st)"
  using assms by (simp add: tts_buffered_def process_audio_def tts_speeches_gen_of)

lemma tts_buffered_encodes:
  assumes "torch_concat env (map tts_speech chunks) = Inr audio_data"
  shows "tts_buffered env st (gen_of chunks None) =
           (case torchaudio_save env audio_data 22050 ''wav'' of
              Inl e \<Rightarrow> Inl e
            | Inr buffer \<Rightarrow>
                Inr (StreamingResponse 200 ''audio/wav'' ''sound.wav'' (bytes_lines buffer) None),
            st\<lparr>encoded := encoded st @ [(audio_data, 22050, ''wav'')]\<rparr>)"
  using assms
  by (simp add: tts_buffered_def process_audio_def tts_speeches_gen_of split: sum.splits)

lemma tts_try_nonstreaming:
  assumes "text \<noteq> []" and "speaker \<noteq> []"
    and "get_available_voices env st = (Inr voices, st1)"
    and "speaker \<in> set (map voice_id voices)"
    and "inference_func env service st1 text speaker instruct False speed = (Inr g, st2)"
  shows "tts_try env service st text speaker instruct 0 speed = tts_buffered env st2 g"
  using assms by (simp add: tts_try_def)

subsection \<open>Start-up\<close>

lemma PRELOAD_MODEL_True: "PRELOAD_MODEL var"
  by (simp add: PRELOAD_MODEL_def Let_def)

lemma get_tts_service_sets:
  "get_tts_service env st = (Inr s, st') \<Longrightarrow> tts_service st' = Some s"
  by (auto simp: get_tts_service_def split: option.splits prod.splits sum.splits)

subsection \<open>Streaming\<close>

lemma generate_loop_gen_of:
  assumes "list_all2 (\<lambda>c piece. torchaudio_save env (tts_speech c) 22050 ''ogg'' = Inr piece)
             chunks pieces"
  shows "generate_loop env st (gen_of chunks err) =
           (err, pieces,
            st\<lparr>encoded := encoded st @ map (\<lambda>c. (tts_speech c, 22050, ''ogg'')) chunks\<rparr>)"
  using assms
proof (induction chunks pieces arbitrary: st rule: list_all2_induct)
  case Nil
  then show ?case by (cases err) simp_all
next
  case (Cons c chunks piece pieces)
  let ?st1 = "st\<lparr>encoded := encoded st @ [(tts_speech c, 22050, ''ogg'')]\<rparr>"
  have p: "process_audio env st [tts_speech c] 22050 ''ogg'' = (Inr piece, ?st1)"
    using Cons.hyps(1) by (simp add: process_audio_def torch_concat_single)
  show ?case
    by (simp add: p Cons.IH[of ?st1])
qed

lemma tts_try_streaming:
  assumes "text \<noteq> []" and "speaker \<noteq> []"
    and "get_available_voices env st = (Inr voices, st1)"
    and "speaker \<in> set (map voice_id voices)"
    and "streaming \<noteq> 0"
    and "generate env service st1 text speaker instruct True speed = (r, pieces, st2)"
  shows "tts_try env service st text speaker instruct streaming speed =
           (Inr (StreamingResponse 200 ''audio/ogg'' ''sound.ogg'' pieces None), st2)"
  using assms generate_calls(2)[OF assms(6)] by (simp add: tts_try_def)

subsection \<open>Unknown and stale voices\<close>

lemma contains_append: "contains x (p @ x)"
  by (simp add: contains_sublist)

lemma generate_tts_unknown_speaker:
  assumes "speaker \<notin> set (default_voices self)" and "speaker \<notin> set (spk_custom self)"
  shows "\<exists>p st'. generate_tts env self st text speaker instruct b speed =
           (Inl (RuntimeError (p @ msg_spk_pre @ speaker @ msg_spk_post @
                                join '', '' (default_voices self @ spk_custom self))), st')
         \<and> engine_calls st' = engine_calls st"
proof -
  let ?e = "ValueError (msg_spk_pre @ speaker @ msg_spk_post @
                         join '', '' (default_voices self @ spk_custom self))"
  from assms have t: "generate_tts_try env self st text speaker instruct b speed = (Inl ?e, st)"
    by (simp add: generate_tts_try_def)
  obtain e' st' where x: "generate_tts_except env st ?e = (e', st')"
    by (cases "generate_tts_except env st ?e")
  from generate_tts_except_frame(3)[OF x] obtain p where
    "e' = RuntimeError (p @ msg_spk_pre @ speaker @ msg_spk_post @
                         join '', '' (default_voices self @ spk_custom self))"
    by auto
  with t x generate_tts_except_frame(1)[OF x] show ?thesis
    by (auto simp: generate_tts_def)
qed

lemma scan_voices_member:
  "fname \<in> set ns \<Longrightarrow> endswith fname ''.pt'' \<Longrightarrow> replace_pt fname \<in> set (scan_voices ns)"
  by (induction ns) auto

subsection \<open>The routes\<close>

lemma verify_api_key_True: "verify_api_key path api_key = Inr auth \<Longrightarrow> auth"
  by (auto simp: verify_api_key_def split: if_splits option.splits)

lemma new_calls:
  assumes "engine_calls st' = engine_calls st \<or>
           (\<exists>c. engine_calls st' = engine_calls st @ [c] \<and> call_speed c = speed)"
    and "0.5 \<le> speed \<and> speed \<le> 2"
  shows "\<exists>new. engine_calls st' = engine_calls st @ new
           \<and> list_all (\<lambda>c. call_speed c = speed \<and> 0.5 \<le> call_speed c \<and> call_speed c \<le> 2) new"
proof -
  from assms(1) show ?thesis
  proof
    assume "engine_calls st' = engine_calls st"
    then have "engine_calls st' = engine_calls st @ []
           \<and> list_all (\<lambda>c. call_speed c = speed \<and> 0.5 \<le> call_speed c \<and> call_speed c \<le> 2) []"
      by simp
    then show ?thesis by blast
  next
    assume "\<exists>c. engine_calls st' = engine_calls st @ [c] \<and> call_speed c = speed"
    then obtain c where "engine_calls st' = engine_calls st @ [c]" and "call_speed c = speed"
      by blast
    with assms(2) have "engine_calls st' = engine_calls st @ [c]
           \<and> list_all (\<lambda>c. call_speed c = speed \<and> 0.5 \<le> call_speed c \<and> call_speed c \<le> 2) [c]"
      by simp
    then show ?thesis by blast
  qed
qed

lemma tts_get_calls:
  "\<exists>new. engine_calls
            (snd (tts_get env st content_length path api_key text speaker instruct streaming speed))
            = engine_calls st @ new
         \<and> list_all (\<lambda>c. call_speed c = speed \<and> 0.5 \<le> call_speed c \<and> call_speed c \<le> 2) new"
proof (cases "limit_request_size content_length")
  case (Some too_large)
  then show ?thesis by (simp add: tts_get_def)
next
  case None
  show ?thesis
  proof (cases "verify_api_key path api_key")
    case (Inl e)
    with None show ?thesis by (simp add: tts_get_def)
  next
    case (Inr auth)
    show ?thesis
    proof (cases "0.5 \<le> speed \<and> speed \<le> 2")
      case True
      with None Inr have
        "tts_get env st content_length path api_key text speaker instruct streaming speed
           = tts env st text speaker instruct streaming speed"
        by (simp add: tts_get_def)
      with new_calls[OF tts_calls True] show ?thesis by simp
    next
      case False
      with None Inr show ?thesis by (simp add: tts_get_def validation_exception_handler_def)
    qed
  qed
qed

lemma tts_get_rejects:
  assumes "\<not> (0.5 \<le> speed \<and> speed \<le> 2)"
  shows "engine_calls
           (snd (tts_get env st content_length path api_key text speaker instruct streaming speed))
           = engine_calls st"
    and "fst (tts_get env st content_length path api_key text speaker instruct streaming speed) =
           (case limit_request_size content_length of
              Some too_large \<Rightarrow> Inr too_large
            | None \<Rightarrow>
                (case verify_api_key path api_key of
                   Inl e \<Rightarrow> Inl e
                 | Inr auth \<Rightarrow> Inl (RequestValidationError [''speed''])))"
  using assms
  by (cases "limit_request_size content_length"; cases "verify_api_key path api_key";
      simp add: tts_get_def validation_exception_handler_def)+

lemma tts_post_calls:
  "\<exists>new. engine_calls (snd (tts_post env st content_length path api_key r)) = engine_calls st @ new
         \<and> list_all (\<lambda>c. call_speed c = req_speed r \<and> 0.5 \<le> call_speed c \<and> call_speed c \<le> 2) new"
proof (cases "limit_request_size content_length")
  case (Some too_large)
  then show ?thesis by (simp add: tts_post_def)
next
  case None
  show ?thesis
  proof (cases "verify_api_key path api_key")
    case (Inl e)
    with None show ?thesis by (simp add: tts_post_def)
  next
    case (Inr auth)
    show ?thesis
    proof (cases "TTSRequest_validate r")
      case (Inl e)
      with None Inr show ?thesis by (simp add: tts_post_def validation_exception_handler_def)
    next
      case Inr2: (Inr request_data)
      then have rd: "request_data = r" and range: "0.5 \<le> req_speed r \<and> req_speed r \<le> 2"
        by (auto simp: TTSRequest_validate_def Let_def split: if_splits)
      with None Inr Inr2 have "tts_post env st content_length path api_key r
          = tts env st (req_text r) (req_speaker r) (req_instruct r)
              (if req_streaming r then 1 else 0) (req_speed r)"
        by (simp add: tts_post_def)
      with new_calls[OF tts_calls range] show ?thesis by simp
    qed
  qed
qed

lemma TTSRequest_validate_speed:
  assumes "\<not> (0.5 \<le> req_speed r \<and> req_speed r \<le> 2)"
  shows "TTSRequest_validate r =
           Inl (RequestValidationError
                  ((if strip_empty (req_text r) then [''text''] else []) @
                   (if strip_empty (req_speaker r) then [''speaker''] else []) @ [''speed'']))"
  using assms by (simp add: TTSRequest_validate_def Let_def)

lemma tts_post_rejects:
  assumes "\<not> (0.5 \<le> req_speed r \<and> req_speed r \<le> 2)"
  shows "engine_calls (snd (tts_post env st content_length path api_key r)) = engine_calls st"
    and "fst (tts_post env st content_length path api_key r) =
           (case limit_request_size content_length of
              Some too_large \<Rightarrow> Inr too_large
            | None \<Rightarrow>
                (case verify_api_key path api_key of
                   Inl e \<Rightarrow> Inl e
                 | Inr auth \<Rightarrow>
                     Inl (RequestValidationError
                            ((if strip_empty (req_text r) then [''text''] else []) @
                             (if strip_empty (req_speaker r) then [''speaker''] else []) @
                             [''speed'']))))"
  using TTSRequest_validate_speed[OF assms]
  by (cases "limit_request_size content_length"; cases "verify_api_key path api_key";
      simp add: tts_post_def validation_exception_handler_def)+

text \<open>U+3000, the ideographic space, is white space.\<close>

lemma strip_empty_ideographic_space: "strip_empty [CHR 0xE3, CHR 0x80, CHR 0x80]"
  by (simp add: isspace1_def isspace2_def isspace3_def)

subsection \<open>The invariant\<close>

text \<open>
  The state after the import is consistent, and the start-up and every request leave a
  consistent state consistent: the states in which requests are served are consistent.
\<close>

lemma consistent_init_state: "consistent init_state"
  by (simp add: consistent_def init_state_def)

lemma load_voice_data_service:
  assumes "load_voice_data env st speaker = (r, st')"
  shows "cls_instance st' = cls_instance st \<and> tts_service st' = tts_service st"
  using assms by (auto simp: load_voice_data_def split: option.splits voice_file.splits)

lemma process_audio_service:
  assumes "process_audio env st ts sr fmt = (r, st')"
  shows "cls_instance st' = cls_instance st \<and> tts_service st' = tts_service st"
  using assms by (auto simp: process_audio_def split: sum.splits)

lemma generate_tts_service:
  assumes "generate_tts env self st text speaker instruct b speed = (r, st')"
  shows "cls_instance st' = cls_instance st \<and> tts_service st' = tts_service st"
proof -
  obtain r1 st1 where t: "generate_tts_try env self st text speaker instruct b speed = (r1, st1)"
    by (cases "generate_tts_try env self st text speaker instruct b speed")
  then have f1: "cls_instance st1 = cls_instance st \<and> tts_service st1 = tts_service st"
    by (auto simp: generate_tts_try_def Let_def
             split: if_splits option.splits prod.splits sum.splits
             dest: load_voice_data_service)
  have f2: "cls_instance st2 = cls_instance st1 \<and> tts_service st2 = tts_service st1"
    if "generate_tts_except env st1 e = (e', st2)" for e e' st2
    using that by (auto simp: generate_tts_except_def Let_def split: if_splits)
  from assms t f1 f2 show ?thesis
    by (cases r1) (auto simp: generate_tts_def split: prod.splits)
qed

lemma inference_func_service:
  assumes "inference_func env service st text speaker instruct b speed = (r, st')"
  shows "cls_instance st' = cls_instance st \<and> tts_service st' = tts_service st"
proof -
  obtain r1 st1 where t: "inference_func_try env service st text speaker instruct b speed = (r1, st1)"
    by (cases "inference_func_try env service st text speaker instruct b speed")
  then have f1: "cls_instance st1 = cls_instance st \<and> tts_service st1 = tts_service st"
    by (auto simp: inference_func_try_def
             split: if_splits option.splits prod.splits sum.splits
             dest!: load_voice_data_service generate_tts_service)
  have f2: "cls_instance st2 = cls_instance st1 \<and> tts_service st2 = tts_service st1"
    if "inference_func_except env st1 e = (e', st2)" for e e' st2
    using that by (auto simp: inference_func_except_def Let_def split: if_splits)
  from assms t f1 f2 show ?thesis
    by (cases r1) (auto simp: inference_func_def split: prod.splits)
qed

lemma generate_loop_service:
  "generate_loop env st g = (r, pieces, st') \<Longrightarrow>
     cls_instance st' = cls_instance st \<and> tts_service st' = tts_service st"
proof (induction g arbitrary: st r pieces st')
  case Done
  then show ?case by simp
next
  case (Raise e)
  then show ?case by simp
next
  case (Yield out g)
  obtain r1 st1 where p: "process_audio env st [tts_speech out] 22050 ''ogg'' = (r1, st1)"
    by (cases "process_audio env st [tts_speech out] 22050 ''ogg''")
  note fr = process_audio_service[OF p]
  show ?case
  proof (cases r1)
    case (Inl e)
    with Yield.prems p fr show ?thesis by simp
  next
    case (Inr buffer)
    obtain r2 ps2 st2 where l: "generate_loop env st1 g = (r2, ps2, st2)"
      by (cases "generate_loop env st1 g")
    with Yield.prems p Inr have "st' = st2" by simp
    with Yield.IH[OF l] fr show ?thesis by simp
  qed
qed

lemma generate_service:
  assumes "generate env service st text speaker instruct b speed = (r, pieces, st')"
  shows "cls_instance st' = cls_instance st \<and> tts_service st' = tts_service st"
proof -
  obtain r1 st1 where i: "inference_func env service st text speaker instruct b speed = (r1, st1)"
    by (cases "inference_func env service st text speaker instruct b speed")
  obtain r2 ps2 st2 where t: "generate_try env service st text speaker instruct b speed = (r2, ps2, st2)"
    by (cases "generate_try env service st text speaker instruct b speed")
  have "cls_instance st2 = cls_instance st1 \<and> tts_service st2 = tts_service st1"
  proof (cases r1)
    case (Inl e)
    with i t show ?thesis by (simp add: generate_try_def)
  next
    case (Inr g)
    with i t have "generate_loop env st1 g = (r2, ps2, st2)" by (simp add: generate_try_def)
    from generate_loop_service[OF this] show ?thesis .
  qed
  moreover from assms t have "cls_instance st' = cls_instance st2 \<and> tts_service st' = tts_service st2"
    by (cases r2) (auto simp: generate_def generate_except_def)
  ultimately show ?thesis using inference_func_service[OF i] by simp
qed

lemma tts_buffered_service:
  assumes "tts_buffered env st g = (r, st')"
  shows "cls_instance st' = cls_instance st \<and> tts_service st' = tts_service st"
  using assms
  by (auto simp: tts_buffered_def split: sum.splits prod.splits dest!: process_audio_service)

lemma tts_except_service:
  assumes "tts_except env st e = (e', st')"
  shows "cls_instance st' = cls_instance st \<and> tts_service st' = tts_service st"
  using assms by (cases e) auto

lemma TTSService_consistent:
  assumes "TTSService env st = (r, st')" and "consistent st"
  shows "consistent st'"
proof (cases "tts_service st")
  case None
  with TTSService_frame(3)[OF assms(1)] show ?thesis by (simp add: consistent_def)
next
  case (Some s)
  with assms(2) have "cls_instance st = Some s" "initialized s" by (simp_all add: consistent_def)
  from TTSService_initialized[OF this, of env] assms show ?thesis by simp
qed

lemma get_available_voices_consistent:
  assumes "get_available_voices env st = (r, st')" and "consistent st"
  shows "consistent st'"
proof -
  obtain r1 st1 where t: "TTSService env st = (r1, st1)" by (cases "TTSService env st")
  with assms(1) have "st' = st1" by (cases r1) (auto simp: get_available_voices_def)
  with TTSService_consistent[OF t assms(2)] show ?thesis by simp
qed

lemma consistent_cong:
  assumes "cls_instance st' = cls_instance st \<and> tts_service st' = tts_service st"
    and "consistent st"
  shows "consistent st'"
  using assms by (auto simp: consistent_def split: option.splits)

lemma get_tts_service_consistent:
  assumes "get_tts_service env st = (r, st')" and "consistent st"
  shows "consistent st'"
proof (cases "tts_service st")
  case (Some s)
  with assms show ?thesis by (simp add: get_tts_service_def)
next
  case None
  obtain r1 st1 where t: "TTSService env st = (r1, st1)" by (cases "TTSService env st")
  note c1 = TTSService_consistent[OF t assms(2)]
  show ?thesis
  proof (cases r1)
    case (Inl e)
    with assms(1) None t have "st' = logger_error st1 (msg_init_service_failed @ str_exc env e)"
      by (simp add: get_tts_service_def)
    with c1 show ?thesis by (auto simp: consistent_def split: option.splits)
  next
    case (Inr s)
    with assms(1) None t have "st' = st1\<lparr>tts_service := Some s\<rparr>"
      by (simp add: get_tts_service_def)
    with TTSService_Inr[OF t[unfolded Inr]] show ?thesis by (simp add: consistent_def)
  qed
qed

lemma tts_try_consistent:
  assumes "tts_try env service st text speaker instruct streaming speed = (r, st')"
    and "consistent st"
  shows "consistent st'"
proof -
  obtain r2 st2 where g: "get_available_voices env st = (r2, st2)"
    by (cases "get_available_voices env st")
  note c2 = get_available_voices_consistent[OF g assms(2)]
  obtain r3 ps3 st3 where gen:
    "generate env service st2 text speaker instruct True speed = (r3, ps3, st3)"
    by (cases "generate env service st2 text speaker instruct True speed")
  obtain r4 st4 where inf:
    "inference_func env service st2 text speaker instruct False speed = (r4, st4)"
    by (cases "inference_func env service st2 text speaker instruct False speed")
  obtain r5 st5 where buf: "tts_buffered env st4 (projr r4) = (r5, st5)"
    by (cases "tts_buffered env st4 (projr r4)")
  from assms(1) g gen inf buf have "st' = st \<or> st' = st2 \<or> st' = st3 \<or> st' = st4 \<or> st' = st5"
    by (cases r2; cases r4) (auto simp: tts_try_def Let_def split: if_splits)
  moreover have "consistent st3"
    by (rule consistent_cong[OF generate_service[OF gen] c2])
  moreover have c4: "consistent st4"
    by (rule consistent_cong[OF inference_func_service[OF inf] c2])
  moreover have "consistent st5"
    by (rule consistent_cong[OF tts_buffered_service[OF buf] c4])
  ultimately show ?thesis using assms(2) c2 by auto
qed

lemma tts_consistent:
  assumes "consistent st"
  shows "consistent (snd (tts env st text speaker instruct streaming speed))"
proof -
  obtain r0 st0 where gs: "get_tts_service env st = (r0, st0)"
    by (cases "get_tts_service env st")
  note c0 = get_tts_service_consistent[OF gs assms]
  show ?thesis
  proof (cases r0)
    case (Inl e)
    with gs c0 show ?thesis by (auto simp: tts_def consistent_def split: option.splits)
  next
    case (Inr service)
    obtain r1 st1 where tt: "tts_try env service st0 text speaker instruct streaming speed = (r1, st1)"
      by (cases "tts_try env service st0 text speaker instruct streaming speed")
    note c1 = tts_try_consistent[OF tt c0]
    obtain e' st6 where x: "tts_except env st1 (projl r1) = (e', st6)"
      by (cases "tts_except env st1 (projl r1)")
    have c6: "consistent st6" by (rule consistent_cong[OF tts_except_service[OF x] c1])
    from gs Inr tt x have "snd (tts env st text speaker instruct streaming speed) = st1 \<or>
       snd (tts env st text speaker instruct streaming speed) = st6"
      by (cases r1) (simp_all add: tts_def)
    with c1 c6 show ?thesis by auto
  qed
qed

lemma startup_event_consistent:
  assumes "consistent st"
  shows "consistent (startup_event env st)"
proof -
  obtain r0 st0 where gs: "get_tts_service env st = (r0, st0)"
    by (cases "get_tts_service env st")
  note c0 = get_tts_service_consistent[OF gs assms]
  obtain r1 st1 where gv: "get_available_voices env st0 = (r1, st1)"
    by (cases "get_available_voices env st0")
  note c1 = get_available_voices_consistent[OF gv c0]
  have lg: "consistent (logger_warning (logger_error s m) m')" if "consistent s" for s m m'
    using that by (auto simp: consistent_def split: option.splits)
  from gs gv c0 c1 lg[OF c0] lg[OF c1] show ?thesis
    by (cases r0; cases r1) (simp_all add: startup_event_def PRELOAD_MODEL_True)
qed

lemma tts_get_consistent:
  assumes "consistent st"
  shows "consistent
           (snd (tts_get env st content_length path api_key text speaker instruct streaming speed))"
  using assms tts_consistent[OF assms, of env "text" speaker instruct streaming speed]
  by (cases "limit_request_size content_length"; cases "verify_api_key path api_key")
     (auto simp: tts_get_def validation_exception_handler_def consistent_def
           split: option.splits)

lemma tts_post_consistent:
  assumes "consistent st"
  shows "consistent (snd (tts_post env st content_length path api_key r))"
  using assms
        tts_consistent[OF assms, of env "req_text r" "req_speaker r" "req_instruct r"
          "if req_streaming r then 1 else 0" "req_speed r"]
  by (cases "limit_request_size content_length"; cases "verify_api_key path api_key";
      cases "TTSRequest_validate r")
     (auto simp: tts_post_def validation_exception_handler_def consistent_def
             TTSRequest_validate_def Let_def
           split: option.splits if_splits)
section \<open>The claims\<close>

subsection \<open>C1: an instruction for a voice without reference audio\<close>

text \<open>
  C1. Every request with a non-empty instruction whose voice has no loadable reference
  audio (\<open>load_voice_data\<close> returns \<open>None\<close>) is to fail with HTTP 400, naming the missing
  reference audio, before any call on the model. The code breaks this. \<open>alice\<close> is built in
  and has no file in the voices directory: the request with an instruction and
  \<open>streaming = 1\<close> is answered with status 200 and an empty body, because \<open>inference_func\<close>
  is called inside the generator of the body, whose handler logs the exception it raised;
  the model is not called. The same request without streaming is answered with the status
  400 that \<open>inference_func\<close> raises. For a voice called \<open>memory\<close> that answer carries the
  out-of-memory message: the handler of \<open>inference_func\<close> searches the message, which holds
  the voice id, for the word.
\<close>

theorem missing_reference_audio_streaming_returns_200:
  "fst (load_voice_data demo_env init_state ''alice'') = Inr None
   \<and> fst (tts demo_env init_state ''hello'' ''alice'' (Some ''happy'') 1 1) =
       Inr (StreamingResponse 200 ''audio/ogg'' ''sound.ogg'' [] None)
   \<and> engine_calls (snd (tts demo_env init_state ''hello'' ''alice'' (Some ''happy'') 1 1)) = []
   \<and> fst (tts demo_env init_state ''hello'' ''alice'' (Some ''happy'') 0 1) =
       Inl (HTTPException 400
             (msg_voice_error @ ''400: '' @ msg_cannot_load_pre @ ''alice'' @ msg_cannot_load_post))
   \<and> fst (tts memory_env init_state ''hello'' ''memory'' (Some ''happy'') 0 1) =
       Inl (HTTPException 400 msg_out_of_memory)"
  by (simp add: memory_env_def model_defs msg_voice_def msg_voice_error_def
        msg_cannot_load_pre_def msg_cannot_load_post_def)

subsection \<open>C2: the buffered output\<close>

text \<open>
  C2, as amended. For every non-streaming request whose engine invocation yields a finite
  sequence of audio chunks: when the sequence is not empty and the chunks have the same
  number of channels, all chunks are pulled, their sample buffers are concatenated in
  arrival order along the sample dimension and the result is encoded exactly once; its
  sample count is the sum of the chunks' sample counts, and so is the sample count any
  decoder reads from the encoded output, if it reads from an encoding the sample count of
  what was encoded; the body of the response is that encoding, sent line by line. When the
  sequence is empty or the numbers of channels differ, \<open>torch.concat\<close> raises, nothing is
  encoded and the request fails. \<open>tts_buffered\<close> is the part of \<open>tts\<close> that consumes the
  generator a request without streaming obtained (\<open>tts_try_nonstreaming\<close>); the chunks are
  tensors, so their rows have one length.
\<close>

theorem buffered_response_concat_encode_once:
  assumes "list_all (\<lambda>c. rectangular (tts_speech c)) chunks"
  shows "(chunks = [] \<or> \<not> same_channels (map tts_speech chunks) \<longrightarrow>
            (\<exists>e. tts_buffered env st (gen_of chunks None) = (Inl e, st)))
       \<and> (chunks \<noteq> [] \<and> same_channels (map tts_speech chunks) \<longrightarrow>
            (\<exists>audio_data.
                torch_concat env (map tts_speech chunks) = Inr audio_data
              \<and> audio_data =
                  map (\<lambda>i. concat (map (\<lambda>c. tts_speech c ! i) chunks)) [0..<shape0 audio_data]
              \<and> shape1 audio_data = sum_list (map (\<lambda>c. shape1 (tts_speech c)) chunks)
              \<and> tts_buffered env st (gen_of chunks None) =
                  (case torchaudio_save env audio_data 22050 ''wav'' of
                     Inl e \<Rightarrow> Inl e
                   | Inr buffer \<Rightarrow>
                       Inr (StreamingResponse 200 ''audio/wav'' ''sound.wav''
                              (bytes_lines buffer) None),
                   st\<lparr>encoded := encoded st @ [(audio_data, 22050, ''wav'')]\<rparr>)
              \<and> (\<forall>buffer decode.
                    torchaudio_save env audio_data 22050 ''wav'' = Inr buffer
                    \<and> (\<forall>t b. torchaudio_save env t 22050 ''wav'' = Inr b \<longrightarrow> decode b = shape1 t)
                    \<longrightarrow> decode (concat (bytes_lines buffer))
                          = sum_list (map (\<lambda>c. shape1 (tts_speech c)) chunks))))"
proof (intro conjI impI)
  assume "chunks = [] \<or> \<not> same_channels (map tts_speech chunks)"
  then have "\<not> (\<exists>audio_data. torch_concat env (map tts_speech chunks) = Inr audio_data)"
    by (auto simp: torch_concat_Inr_iff)
  then obtain e where "torch_concat env (map tts_speech chunks) = Inl e"
    by (cases "torch_concat env (map tts_speech chunks)") auto
  from tts_buffered_fails[OF this]
  show "\<exists>e. tts_buffered env st (gen_of chunks None) = (Inl e, st)" by blast
next
  assume "chunks \<noteq> [] \<and> same_channels (map tts_speech chunks)"
  then have "\<exists>audio_data. torch_concat env (map tts_speech chunks) = Inr audio_data"
    by (simp add: torch_concat_Inr_iff)
  then obtain audio_data where cat: "torch_concat env (map tts_speech chunks) = Inr audio_data" ..
  from torch_concat_Inr(3)[OF cat] have
    rows: "audio_data =
             map (\<lambda>i. concat (map (\<lambda>c. tts_speech c ! i) chunks)) [0..<shape0 audio_data]"
    by (simp add: comp_def)
  from assms have "list_all rectangular (map tts_speech chunks)"
    by (simp add: list_all_iff)
  from torch_concat_shape1(1)[OF cat this] have
    count: "shape1 audio_data = sum_list (map (\<lambda>c. shape1 (tts_speech c)) chunks)"
    by (simp add: comp_def)
  note out = tts_buffered_encodes[OF cat, of st]
  have dec: "decode (concat (bytes_lines buffer))
               = sum_list (map (\<lambda>c. shape1 (tts_speech c)) chunks)"
    if "torchaudio_save env audio_data 22050 ''wav'' = Inr buffer
        \<and> (\<forall>t b. torchaudio_save env t 22050 ''wav'' = Inr b \<longrightarrow> decode b = shape1 t)"
    for buffer and decode :: "bytes \<Rightarrow> nat"
  proof -
    from that have "decode buffer = shape1 audio_data" by blast
    with count show ?thesis by (simp add: concat_bytes_lines)
  qed
  from cat rows count out dec
  show "\<exists>audio_data.
                torch_concat env (map tts_speech chunks) = Inr audio_data
              \<and> audio_data =
                  map (\<lambda>i. concat (map (\<lambda>c. tts_speech c ! i) chunks)) [0..<shape0 audio_data]
              \<and> shape1 audio_data = sum_list (map (\<lambda>c. shape1 (tts_speech c)) chunks)
              \<and> tts_buffered env st (gen_of chunks None) =
                  (case torchaudio_save env audio_data 22050 ''wav'' of
                     Inl e \<Rightarrow> Inl e
                   | Inr buffer \<Rightarrow>
                       Inr (StreamingResponse 200 ''audio/wav'' ''sound.wav''
                              (bytes_lines buffer) None),
                   st\<lparr>encoded := encoded st @ [(audio_data, 22050, ''wav'')]\<rparr>)
              \<and> (\<forall>buffer decode.
                    torchaudio_save env audio_data 22050 ''wav'' = Inr buffer
                    \<and> (\<forall>t b. torchaudio_save env t 22050 ''wav'' = Inr b \<longrightarrow> decode b = shape1 t)
                    \<longrightarrow> decode (concat (bytes_lines buffer))
                          = sum_list (map (\<lambda>c. shape1 (tts_speech c)) chunks))"
    by blast
qed

text \<open>
  The theorem at the engine's two chunks of two and three samples: one tensor of five
  samples is encoded, once, and the five bytes of the stand-in encoder are the body of the
  response. The last conjunct is the whole request.
\<close>

theorem buffered_response_witness:
  "list_all (\<lambda>c. rectangular (tts_speech c)) [\<lparr>tts_speech = [[1, 2]]\<rparr>, \<lparr>tts_speech = [[3, 4, 5]]\<rparr>]
   \<and> same_channels (map tts_speech [\<lparr>tts_speech = [[1, 2]]\<rparr>, \<lparr>tts_speech = [[3, 4, 5]]\<rparr>])
   \<and> torch_concat demo_env [[[1, 2]], [[3, 4, 5]]] = Inr [[1, 2, 3, 4, 5]]
   \<and> tts_buffered demo_env init_state
        (gen_of [\<lparr>tts_speech = [[1, 2]]\<rparr>, \<lparr>tts_speech = [[3, 4, 5]]\<rparr>] None) =
       (Inr (StreamingResponse 200 ''audio/wav'' ''sound.wav'' [[0, 0, 0, 0, 0]] None),
        init_state\<lparr>encoded := [([[1, 2, 3, 4, 5]], 22050, ''wav'')]\<rparr>)
   \<and> length (concat [[0, 0, 0, 0, 0 :: 8 word]]) = shape1 [[1, 2]] + shape1 [[3, 4, 5]]
   \<and> fst (tts demo_env init_state ''hello'' ''alice'' None 0 1) =
       Inr (StreamingResponse 200 ''audio/wav'' ''sound.wav'' [[0, 0, 0, 0, 0]] None)"
proof -
  let ?chunks = "[\<lparr>tts_speech = [[1, 2]]\<rparr>, \<lparr>tts_speech = [[3, 4, 5]]\<rparr>]"
  have r: "list_all (\<lambda>c. rectangular (tts_speech c)) ?chunks"
    by (simp add: rectangular_def shape1_def)
  have s: "?chunks \<noteq> [] \<and> same_channels (map tts_speech ?chunks)"
    by (simp add: same_channels_def shape0_def)
  have c: "torch_concat demo_env (map tts_speech ?chunks) = Inr [[1, 2, 3, 4, 5]]"
    by (simp add: torch_concat_def shape0_def)
  have e: "torchaudio_save demo_env [[1, 2, 3, 4, 5]] 22050 ''wav'' = Inr [0, 0, 0, 0, 0]"
    by (simp add: demo_env_def shape1_def)
  have d: "\<forall>t b. torchaudio_save demo_env t 22050 ''wav'' = Inr b \<longrightarrow> length b = shape1 t"
    by (simp add: demo_env_def)
  have t: "fst (tts demo_env init_state ''hello'' ''alice'' None 0 1) =
       Inr (StreamingResponse 200 ''audio/wav'' ''sound.wav'' [[0, 0, 0, 0, 0]] None)"
    by (simp add: model_defs)
  from buffered_response_concat_encode_once[OF r, of demo_env init_state] s c
  have b: "tts_buffered demo_env init_state (gen_of ?chunks None) =
       (Inr (StreamingResponse 200 ''audio/wav'' ''sound.wav'' (bytes_lines [0, 0, 0, 0, 0]) None),
        init_state\<lparr>encoded := encoded init_state @ [([[1, 2, 3, 4, 5]], 22050, ''wav'')]\<rparr>)"
    and "\<forall>buffer decode.
           torchaudio_save demo_env [[1, 2, 3, 4, 5]] 22050 ''wav'' = Inr buffer
           \<and> (\<forall>t b. torchaudio_save demo_env t 22050 ''wav'' = Inr b \<longrightarrow> decode b = shape1 t)
           \<longrightarrow> decode (concat (bytes_lines buffer))
                 = sum_list (map (\<lambda>c. shape1 (tts_speech c)) ?chunks)"
    by (auto simp: e)
  from this(2) e d have "length (concat (bytes_lines [0, 0, 0, 0, 0 :: 8 word]))
      = sum_list (map (\<lambda>c. shape1 (tts_speech c)) ?chunks)"
    by blast
  with r s c b t show ?thesis by (simp add: init_state_def)
qed

text \<open>
  C2 as stated fails when the engine yields no chunk: \<open>torch.concat\<close> raises, nothing is
  encoded, and the request is answered with status 500.
\<close>

theorem buffered_empty_sequence_counterexample:
  "tts_buffered demo_env init_state (gen_of [] None) =
     (Inl (RuntimeError ''torch.cat(): expected a non-empty list of Tensors''), init_state)
   \<and> encoded init_state = []
   \<and> fst (tts silent_env init_state ''hello'' ''alice'' None 0 1) =
       Inl (HTTPException 500
             (msg_internal_error @ ''torch.cat(): expected a non-empty list of Tensors''))
   \<and> encoded (snd (tts silent_env init_state ''hello'' ''alice'' None 0 1)) = []"
  by (simp add: silent_env_def model_defs)

subsection \<open>C3: the voice listing\<close>

text \<open>
  C3, as amended. \<open>get_available_voices\<close> returns the built-in voices in the engine's order
  followed by one entry for each file of the voices directory whose name ends in \<open>.pt\<close>, in
  the directory's order, and removes nothing: no two entries share a voice id exactly when
  the built-in ids are distinct, the custom ids are distinct, and no id is both built in
  and custom. When a built-in and a custom voice carry the same id, both entries are
  returned, the built-in one first.
\<close>

theorem voice_listing_builtin_then_custom:
  assumes "get_available_voices env st = (Inr voices, st')"
  shows "voices = map (\<lambda>n. \<lparr>name = n, voice_id = n\<rparr>)
                    (list_available_spks env @
                     (if voices_dir_exists env then scan_voices (listdir env) else []))
       \<and> (distinct (map voice_id voices) \<longleftrightarrow>
            distinct (list_available_spks env)
            \<and> distinct (if voices_dir_exists env then scan_voices (listdir env) else [])
            \<and> set (list_available_spks env)
                \<inter> set (if voices_dir_exists env then scan_voices (listdir env) else []) = {})"
proof -
  let ?custom = "if voices_dir_exists env then scan_voices (listdir env) else []"
  from assms have v: "voices = map (\<lambda>n. \<lparr>name = n, voice_id = n\<rparr>) (list_available_spks env @ ?custom)"
    by (auto simp: get_available_voices_def split: prod.splits sum.splits)
  have "map voice_id voices = list_available_spks env @ ?custom"
    by (rule get_available_voices_ids[OF assms])
  then have "distinct (map voice_id voices) \<longleftrightarrow>
       distinct (list_available_spks env) \<and> distinct ?custom
       \<and> set (list_available_spks env) \<inter> set ?custom = {}"
    by (simp only: distinct_append)
  with v show ?thesis by blast
qed

text \<open>The theorem at the deployment with \<open>alice\<close> built in and \<open>bob.pt\<close> on disk.\<close>

theorem voice_listing_witness:
  "get_available_voices demo_env init_state =
     (Inr [\<lparr>name = ''alice'', voice_id = ''alice''\<rparr>, \<lparr>name = ''bob'', voice_id = ''bob''\<rparr>],
      init_state\<lparr>cls_instance :=
        Some \<lparr>initialized = True, default_voices = [''alice''], spk_custom = [''bob'']\<rparr>\<rparr>)
   \<and> distinct (map voice_id [\<lparr>name = ''alice'', voice_id = ''alice''\<rparr>, \<lparr>name = ''bob'', voice_id = ''bob''\<rparr>])"
proof -
  have g: "get_available_voices demo_env init_state =
     (Inr [\<lparr>name = ''alice'', voice_id = ''alice''\<rparr>, \<lparr>name = ''bob'', voice_id = ''bob''\<rparr>],
      init_state\<lparr>cls_instance :=
        Some \<lparr>initialized = True, default_voices = [''alice''], spk_custom = [''bob'']\<rparr>\<rparr>)"
    by (simp add: model_defs)
  have d: "list_available_spks demo_env = [''alice'']" "voices_dir_exists demo_env"
    "scan_voices (listdir demo_env) = [''bob'']"
    by (simp_all add: demo_env_def endswith_def)
  from voice_listing_builtin_then_custom[OF g] g d show ?thesis by simp
qed

text \<open>
  C3 as stated fails when \<open>alice.pt\<close> is on disk beside the built-in \<open>alice\<close>: the listing
  has two entries with the id \<open>alice\<close>.
\<close>

theorem voice_listing_duplicate_counterexample:
  "fst (get_available_voices collide_env init_state) =
     Inr [\<lparr>name = ''alice'', voice_id = ''alice''\<rparr>, \<lparr>name = ''alice'', voice_id = ''alice''\<rparr>,
          \<lparr>name = ''bob'', voice_id = ''bob''\<rparr>]
   \<and> \<not> distinct (map voice_id
         [\<lparr>name = ''alice'', voice_id = ''alice''\<rparr>, \<lparr>name = ''alice'', voice_id = ''alice''\<rparr>,
          \<lparr>name = ''bob'', voice_id = ''bob''\<rparr>])"
  by (simp add: model_defs collide_env_def)

subsection \<open>C4: the speed\<close>

text \<open>
  C4, as amended. For every request to \<open>GET /tts\<close> or \<open>POST /tts\<close>, each call the request
  makes on the model carries the speed of the request, unchanged, and that speed lies in
  \<open>[0.5, 2.0]\<close>. A request whose speed lies outside the range makes no call on the model and
  is refused: with status 413 when its \<open>Content-Length\<close> exceeds 16 MiB, otherwise with
  status 401 when its key is refused, otherwise with the validation error that names
  \<open>speed\<close> (status 422). The speed is never clamped.
\<close>

theorem speed_out_of_range_is_rejected:
  "(\<exists>new. engine_calls
             (snd (tts_get env st content_length path api_key text speaker instruct streaming speed))
             = engine_calls st @ new
          \<and> list_all (\<lambda>c. call_speed c = speed \<and> 0.5 \<le> call_speed c \<and> call_speed c \<le> 2) new)
   \<and> (\<not> (0.5 \<le> speed \<and> speed \<le> 2) \<longrightarrow>
         engine_calls
           (snd (tts_get env st content_length path api_key text speaker instruct streaming speed))
           = engine_calls st
         \<and> fst (tts_get env st content_length path api_key text speaker instruct streaming speed) =
             (case limit_request_size content_length of
                Some too_large \<Rightarrow> Inr too_large
              | None \<Rightarrow>
                  (case verify_api_key path api_key of
                     Inl e \<Rightarrow> Inl e
                   | Inr auth \<Rightarrow> Inl (RequestValidationError [''speed'']))))
   \<and> (\<exists>new. engine_calls (snd (tts_post env st content_length path api_key r))
             = engine_calls st @ new
          \<and> list_all (\<lambda>c. call_speed c = req_speed r \<and> 0.5 \<le> call_speed c \<and> call_speed c \<le> 2) new)
   \<and> (\<not> (0.5 \<le> req_speed r \<and> req_speed r \<le> 2) \<longrightarrow>
         engine_calls (snd (tts_post env st content_length path api_key r)) = engine_calls st
         \<and> fst (tts_post env st content_length path api_key r) =
             (case limit_request_size content_length of
                Some too_large \<Rightarrow> Inr too_large
              | None \<Rightarrow>
                  (case verify_api_key path api_key of
                     Inl e \<Rightarrow> Inl e
                   | Inr auth \<Rightarrow>
                       Inl (RequestValidationError
                              ((if strip_empty (req_text r) then [''text''] else []) @
                               (if strip_empty (req_speaker r) then [''speaker''] else []) @
                               [''speed''])))))"
proof (intro conjI impI)
  show "\<exists>new. engine_calls
             (snd (tts_get env st content_length path api_key text speaker instruct streaming speed))
             = engine_calls st @ new
          \<and> list_all (\<lambda>c. call_speed c = speed \<and> 0.5 \<le> call_speed c \<and> call_speed c \<le> 2) new"
    by (rule tts_get_calls)
  show "\<exists>new. engine_calls (snd (tts_post env st content_length path api_key r))
             = engine_calls st @ new
          \<and> list_all (\<lambda>c. call_speed c = req_speed r \<and> 0.5 \<le> call_speed c \<and> call_speed c \<le> 2) new"
    by (rule tts_post_calls)
next
  assume out: "\<not> (0.5 \<le> speed \<and> speed \<le> 2)"
  show "engine_calls
           (snd (tts_get env st content_length path api_key text speaker instruct streaming speed))
           = engine_calls st"
    by (rule tts_get_rejects(1)[OF out])
  show "fst (tts_get env st content_length path api_key text speaker instruct streaming speed) =
             (case limit_request_size content_length of
                Some too_large \<Rightarrow> Inr too_large
              | None \<Rightarrow>
                  (case verify_api_key path api_key of
                     Inl e \<Rightarrow> Inl e
                   | Inr auth \<Rightarrow> Inl (RequestValidationError [''speed''])))"
    by (rule tts_get_rejects(2)[OF out])
next
  assume out: "\<not> (0.5 \<le> req_speed r \<and> req_speed r \<le> 2)"
  show "engine_calls (snd (tts_post env st content_length path api_key r)) = engine_calls st"
    by (rule tts_post_rejects(1)[OF out])
  show "fst (tts_post env st content_length path api_key r) =
             (case limit_request_size content_length of
                Some too_large \<Rightarrow> Inr too_large
              | None \<Rightarrow>
                  (case verify_api_key path api_key of
                     Inl e \<Rightarrow> Inl e
                   | Inr auth \<Rightarrow>
                       Inl (RequestValidationError
                              ((if strip_empty (req_text r) then [''text''] else []) @
                               (if strip_empty (req_speaker r) then [''speaker''] else []) @
                               [''speed'']))))"
    by (rule tts_post_rejects(2)[OF out])
qed

text \<open>
  The theorem at speed 3: a \<open>POST\<close> with the key is refused with the validation error, one
  without a key with status 401, a \<open>GET\<close> that announces twenty million bytes with status
  413; and at a \<open>GET\<close> with speed 1.5, which reaches the model with 1.5.
\<close>

theorem speed_validation_witness:
  "\<not> (0.5 \<le> (3::real) \<and> (3::real) \<le> 2)
   \<and> fst (tts_post demo_env init_state None ''/tts'' (Some ''cosyvoice-api-demo'')
        \<lparr>req_text = ''hello'', req_speaker = ''alice'', req_instruct = None,
         req_streaming = False, req_speed = 3\<rparr>) = Inl (RequestValidationError [''speed''])
   \<and> fst (tts_post demo_env init_state None ''/tts'' None
        \<lparr>req_text = ''hello'', req_speaker = ''alice'', req_instruct = None,
         req_streaming = False, req_speed = 3\<rparr>) = Inl (HTTPException 401 msg_no_api_key)
   \<and> fst (tts_get demo_env init_state (Some 20000000) ''/tts'' (Some ''cosyvoice-api-demo'')
        ''hello'' ''alice'' None 0 3) = Inr (JSONResponse 413 msg_too_large)
   \<and> engine_calls (snd (tts_post demo_env init_state None ''/tts'' (Some ''cosyvoice-api-demo'')
        \<lparr>req_text = ''hello'', req_speaker = ''alice'', req_instruct = None,
         req_streaming = False, req_speed = 3\<rparr>)) = []
   \<and> engine_calls (snd (tts_get demo_env init_state None ''/tts'' (Some ''cosyvoice-api-demo'')
        ''hello'' ''alice'' None 0 1.5)) = [Inference_sft ''hello'' ''alice'' False 1.5]"
proof -
  let ?r = "\<lparr>req_text = ''hello'', req_speaker = ''alice'', req_instruct = None,
         req_streaming = False, req_speed = 3\<rparr>"
  have o: "\<not> (0.5 \<le> (3::real) \<and> (3::real) \<le> 2)" by simp
  have k: "verify_api_key ''/tts'' (Some ''cosyvoice-api-demo'') = Inr True"
    "verify_api_key ''/tts'' None = Inl (HTTPException 401 msg_no_api_key)"
    by (simp_all add: verify_api_key_def NO_AUTH_PATHS_def API_KEYS_def ENABLE_API_AUTH_def)
  have l: "limit_request_size None = None"
    "limit_request_size (Some 20000000) = Some (JSONResponse 413 msg_too_large)"
    by (simp_all add: limit_request_size_def)
  have s: "\<not> strip_empty ''hello''" "\<not> strip_empty ''alice''"
    by (simp_all add: isspace1_def isspace2_def isspace3_def)
  have g: "engine_calls (snd (tts_get demo_env init_state None ''/tts'' (Some ''cosyvoice-api-demo'')
        ''hello'' ''alice'' None 0 1.5)) = [Inference_sft ''hello'' ''alice'' False 1.5]"
    by (simp add: tts_get_def k model_defs)
  have e: "engine_calls init_state = []" by (simp add: init_state_def)
  from speed_out_of_range_is_rejected[of demo_env init_state None "''/tts''"
         "Some ''cosyvoice-api-demo''" "''hello''" "''alice''" None 0 3 ?r]
       speed_out_of_range_is_rejected[of demo_env init_state None "''/tts''"
         None "''hello''" "''alice''" None 0 3 ?r]
       speed_out_of_range_is_rejected[of demo_env init_state "Some 20000000" "''/tts''"
         "Some ''cosyvoice-api-demo''" "''hello''" "''alice''" None 0 3 ?r]
       o k l s g e
  show ?thesis by simp
qed

text \<open>
  C4 as stated fails at speed 3: the request is refused and the model is not called, where
  clamping would have called it with speed 2, as the request with speed 2 does.
\<close>

theorem speed_clamping_counterexample:
  "fst (tts_get demo_env init_state None ''/tts'' (Some ''cosyvoice-api-demo'')
          ''hello'' ''alice'' None 0 3) = Inl (RequestValidationError [''speed''])
   \<and> engine_calls (snd (tts_get demo_env init_state None ''/tts'' (Some ''cosyvoice-api-demo'')
          ''hello'' ''alice'' None 0 3)) = []
   \<and> engine_calls (snd (tts_get demo_env init_state None ''/tts'' (Some ''cosyvoice-api-demo'')
          ''hello'' ''alice'' None 0 2)) = [Inference_sft ''hello'' ''alice'' False 2]"
  by (simp add: tts_get_def verify_api_key_def NO_AUTH_PATHS_def API_KEYS_def
        ENABLE_API_AUTH_def validation_exception_handler_def model_defs)

subsection \<open>C5: a failure in the middle of a stream\<close>

text \<open>
  C5. When the engine's generator raises after it has yielded chunks, each of which was
  encoded, the stream generator has emitted exactly one piece per chunk, each the encoding
  of that chunk alone, emits nothing more, writes one error entry to the log, and raises
  nothing; the response keeps the status 200 it was given (\<open>tts_try_streaming\<close>).
\<close>

theorem stream_failure_stops_and_logs:
  assumes "inference_func env service st text speaker instruct b speed
             = (Inr (gen_of chunks (Some e)), st1)"
    and "list_all2 (\<lambda>c piece. torchaudio_save env (tts_speech c) 22050 ''ogg'' = Inr piece)
           chunks pieces"
  shows "\<exists>st'. generate env service st text speaker instruct b speed = (None, pieces, st')
           \<and> log st' = log st1 @ [(ERROR, msg_stream_error @ str_exc env e)]
           \<and> encoded st' = encoded st1 @ map (\<lambda>c. (tts_speech c, 22050, ''ogg'')) chunks
           \<and> engine_calls st' = engine_calls st1"
proof -
  let ?st2 = "st1\<lparr>encoded := encoded st1 @ map (\<lambda>c. (tts_speech c, 22050, ''ogg'')) chunks\<rparr>"
  have loop: "generate_loop env st1 (gen_of chunks (Some e)) = (Some e, pieces, ?st2)"
    by (rule generate_loop_gen_of[OF assms(2)])
  with assms(1) have
    "generate_try env service st text speaker instruct b speed = (Some e, pieces, ?st2)"
    by (simp add: generate_try_def)
  then have "generate env service st text speaker instruct b speed =
               (None, pieces, logger_error ?st2 (msg_stream_error @ str_exc env e))"
    by (simp add: generate_def generate_except_def)
  then show ?thesis by simp
qed

text \<open>
  The theorem where the engine fails after its second chunk: two pieces are sent, the error
  is logged, and the response of the whole request has status 200 and those two pieces.
\<close>

theorem stream_failure_witness:
  "inference_func failing_env
     \<lparr>initialized = True, default_voices = [''alice''], spk_custom = [''bob'']\<rparr>
     init_state ''hello'' ''alice'' None True 1 =
     (Inr (gen_of [\<lparr>tts_speech = [[1, 2]]\<rparr>, \<lparr>tts_speech = [[3, 4, 5]]\<rparr>]
             (Some (OtherException ''CUDA error: device-side assert triggered''))),
      init_state\<lparr>engine_calls := [Inference_sft ''hello'' ''alice'' True 1]\<rparr>)
   \<and> list_all2 (\<lambda>c piece. torchaudio_save failing_env (tts_speech c) 22050 ''ogg'' = Inr piece)
         [\<lparr>tts_speech = [[1, 2]]\<rparr>, \<lparr>tts_speech = [[3, 4, 5]]\<rparr>] [[0, 0], [0, 0, 0]]
   \<and> fst (generate failing_env
         \<lparr>initialized = True, default_voices = [''alice''], spk_custom = [''bob'']\<rparr>
         init_state ''hello'' ''alice'' None True 1) = None
   \<and> fst (snd (generate failing_env
         \<lparr>initialized = True, default_voices = [''alice''], spk_custom = [''bob'']\<rparr>
         init_state ''hello'' ''alice'' None True 1)) = [[0, 0], [0, 0, 0]]
   \<and> log (snd (snd (generate failing_env
         \<lparr>initialized = True, default_voices = [''alice''], spk_custom = [''bob'']\<rparr>
         init_state ''hello'' ''alice'' None True 1))) =
       [(ERROR, msg_stream_error @ ''CUDA error: device-side assert triggered'')]
   \<and> fst (tts failing_env init_state ''hello'' ''alice'' None 1 1) =
       Inr (StreamingResponse 200 ''audio/ogg'' ''sound.ogg'' [[0, 0], [0, 0, 0]] None)"
proof -
  let ?svc = "\<lparr>initialized = True, default_voices = [''alice''], spk_custom = [''bob'']\<rparr>"
  let ?chunks = "[\<lparr>tts_speech = [[1, 2]]\<rparr>, \<lparr>tts_speech = [[3, 4, 5]]\<rparr>]"
  let ?e = "OtherException ''CUDA error: device-side assert triggered''"
  have i: "inference_func failing_env ?svc init_state ''hello'' ''alice'' None True 1 =
     (Inr (gen_of ?chunks (Some ?e)),
      init_state\<lparr>engine_calls := [Inference_sft ''hello'' ''alice'' True 1]\<rparr>)"
    by (simp add: failing_env_def model_defs)
  have p: "list_all2 (\<lambda>c piece. torchaudio_save failing_env (tts_speech c) 22050 ''ogg'' = Inr piece)
         ?chunks [[0, 0], [0, 0, 0]]"
    by (simp add: failing_env_def demo_env_def shape1_def)
  have t: "fst (tts failing_env init_state ''hello'' ''alice'' None 1 1) =
       Inr (StreamingResponse 200 ''audio/ogg'' ''sound.ogg'' [[0, 0], [0, 0, 0]] None)"
    by (simp add: failing_env_def model_defs)
  from stream_failure_stops_and_logs[OF i p] i p t show ?thesis
    by (auto simp: init_state_def)
qed

subsection \<open>C6: concurrent requests\<close>

text \<open>
  C6 is about requests that overlap in time. The handlers above are functions of one
  request and the state it finds; the source holds no lock, semaphore or queue around the
  model, and which requests overlap is decided by the event loop that runs the handlers.
  Nothing is stated about it here.
\<close>

subsection \<open>C7: an unknown voice id\<close>

text \<open>
  C7, as amended. For every request with a non-empty text and a non-empty voice id, served
  in a consistent state (as every state reached from the import is) while the service is
  available, whose voice id is not among the currently valid ids (the
  built-in ids followed by the ids of the \<open>.pt\<close> files that the voices directory holds when
  the request is served), the response is the error 400 whose message ends with all those
  ids, joined by commas, and the model is not called. Likewise \<open>generate_tts\<close>, for a
  speaker in neither of its two lists, raises an error whose message ends with the ids of
  those lists, and does not call the model.
\<close>

theorem unknown_voice_error_lists_valid_ids:
  assumes "consistent st" and "\<not> isl (fst (get_tts_service env st))"
    and "text \<noteq> []" and "speaker \<noteq> []"
    and "speaker \<notin> set (list_available_spks env @
                           (if voices_dir_exists env then scan_voices (listdir env) else []))"
  shows "fst (tts env st text speaker instruct streaming speed) =
           Inl (HTTPException 400
                 (msg_voice_id_pre @ speaker @ msg_voice_id_post @
                  join '', '' (list_available_spks env @
                     (if voices_dir_exists env then scan_voices (listdir env) else []))))
       \<and> contains
            (join '', '' (list_available_spks env @
               (if voices_dir_exists env then scan_voices (listdir env) else [])))
            (msg_voice_id_pre @ speaker @ msg_voice_id_post @
             join '', '' (list_available_spks env @
               (if voices_dir_exists env then scan_voices (listdir env) else [])))
       \<and> engine_calls (snd (tts env st text speaker instruct streaming speed)) = engine_calls st
       \<and> (speaker \<notin> set (default_voices self) \<and> speaker \<notin> set (spk_custom self) \<longrightarrow>
            (\<exists>p. fst (generate_tts env self st text speaker instruct b speed) =
                   Inl (RuntimeError (p @ msg_spk_pre @ speaker @ msg_spk_post @
                                       join '', '' (default_voices self @ spk_custom self))))
            \<and> engine_calls (snd (generate_tts env self st text speaker instruct b speed))
                = engine_calls st)"
proof -
  let ?ids = "list_available_spks env @
                (if voices_dir_exists env then scan_voices (listdir env) else [])"
  let ?detail = "msg_voice_id_pre @ speaker @ msg_voice_id_post @ join '', '' ?ids"
  from assms(2) obtain service st1 where gs: "get_tts_service env st = (Inr service, st1)"
    by (cases "get_tts_service env st"; cases "fst (get_tts_service env st)") auto
  from get_tts_service_Inr[OF gs assms(1)]
  have inst: "cls_instance st1 = Some service" "initialized service" by simp_all
  from get_available_voices_initialized[OF inst, of env] obtain voices where
    gv: "get_available_voices env st1 = (Inr voices, st1)" by blast
  from get_available_voices_ids[OF gv] have ids: "map voice_id voices = ?ids" .
  from assms(3-5) gv ids have
    "tts_try env service st1 text speaker instruct streaming speed =
       (Inl (HTTPException 400 ?detail), st1)"
    by (simp add: tts_try_def)
  with gs have t: "tts env st text speaker instruct streaming speed =
       (Inl (HTTPException 400 ?detail), st1)"
    by (simp add: tts_def)
  have c: "contains (join '', '' ?ids) ?detail"
    using contains_append[of "join '', '' ?ids" "msg_voice_id_pre @ speaker @ msg_voice_id_post"]
    by simp
  have e: "engine_calls st1 = engine_calls st"
    by (rule get_tts_service_frame(1)[OF gs])
  have g: "(\<exists>p. fst (generate_tts env self st text speaker instruct b speed) =
                   Inl (RuntimeError (p @ msg_spk_pre @ speaker @ msg_spk_post @
                                       join '', '' (default_voices self @ spk_custom self))))
            \<and> engine_calls (snd (generate_tts env self st text speaker instruct b speed))
                = engine_calls st"
    if "speaker \<notin> set (default_voices self) \<and> speaker \<notin> set (spk_custom self)"
    using generate_tts_unknown_speaker[of speaker self env st "text" instruct b speed] that
    by auto
  from t c e g show ?thesis by simp
qed

text \<open>The theorem at a request for \<open>carol\<close>, where the voices are \<open>alice\<close> and \<open>bob\<close>.\<close>

theorem unknown_voice_witness:
  "consistent init_state
   \<and> \<not> isl (fst (get_tts_service demo_env init_state))
   \<and> ''carol'' \<notin> set [''alice'', ''bob'']
   \<and> fst (tts demo_env init_state ''hello'' ''carol'' None 0 1) =
       Inl (HTTPException 400 (msg_voice_id_pre @ ''carol'' @ msg_voice_id_post @ ''alice, bob''))
   \<and> engine_calls (snd (tts demo_env init_state ''hello'' ''carol'' None 0 1)) = []"
proof -
  have c: "consistent init_state" by (rule consistent_init_state)
  have g: "\<not> isl (fst (get_tts_service demo_env init_state))"
    by (simp add: model_defs)
  have d: "list_available_spks demo_env @
             (if voices_dir_exists demo_env then scan_voices (listdir demo_env) else [])
           = [''alice'', ''bob'']"
    by (simp add: demo_env_def endswith_def)
  have e: "engine_calls init_state = []" by (simp add: init_state_def)
  from unknown_voice_error_lists_valid_ids[OF c g, of "''hello''" "''carol''" None 0 1] d e c g
  show ?thesis by simp
qed

text \<open>
  C7 as stated fails for a request for \<open>carol\<close> with an empty text, which the guard of
  \<open>tts\<close> answers with a message that lists no voice, and for a request served when the
  model folder is missing, which is answered with status 500.
\<close>

theorem unknown_voice_empty_text_counterexample:
  "''carol'' \<notin> set [''alice'', ''bob'']
   \<and> fst (tts demo_env init_state [] ''carol'' None 0 1) =
       Inl (HTTPException 400 msg_text_speaker_empty)
   \<and> \<not> contains ''alice, bob'' msg_text_speaker_empty
   \<and> fst (tts broken_env init_state ''hello'' ''carol'' None 0 1) =
       Inl (HTTPException 500
             (starlette_str 500
                (msg_init_service_failed @ msg_init_model_failed @ msg_model_dir_pre @
                 MODEL_PATH broken_env @ msg_model_dir_post)))"
  by (simp add: broken_env_def model_defs msg_text_speaker_empty_def)

subsection \<open>C8: the health endpoint\<close>

text \<open>
  C8. The health endpoint returns \<open>status\<close> and \<open>service\<close> in every state, those where the
  model is not loaded included, and leaves the state as it was (it neither builds nor reads
  the service); the path \<open>/health\<close> passes \<open>verify_api_key\<close> with any key or none.
\<close>

theorem health_check_needs_no_engine:
  "health_check st = ([(''status'', ''healthy''), (''service'', ''CosyVoice2 API'')], st)
   \<and> verify_api_key ''/health'' api_key = Inr True"
  by (simp add: health_check_def verify_api_key_def NO_AUTH_PATHS_def)

text \<open>
  The theorem in the state after a start-up whose model folder is missing: no service
  exists and building one fails, the health endpoint answers, and no key is asked for
  \<open>/health\<close> while \<open>/tts\<close> without a key is refused.
\<close>

theorem health_check_witness:
  "tts_service (startup_event broken_env init_state) = None
   \<and> isl (fst (get_tts_service broken_env (startup_event broken_env init_state)))
   \<and> health_check (startup_event broken_env init_state) =
       ([(''status'', ''healthy''), (''service'', ''CosyVoice2 API'')],
        startup_event broken_env init_state)
   \<and> verify_api_key ''/health'' None = Inr True
   \<and> verify_api_key ''/tts'' None = Inl (HTTPException 401 msg_no_api_key)"
proof -
  have a: "tts_service (startup_event broken_env init_state) = None"
    by (simp add: startup_event_def PRELOAD_MODEL_def broken_env_def model_defs)
  have b: "isl (fst (get_tts_service broken_env (startup_event broken_env init_state)))"
    by (simp add: startup_event_def PRELOAD_MODEL_def broken_env_def model_defs)
  have c: "verify_api_key ''/tts'' None = Inl (HTTPException 401 msg_no_api_key)"
    by (simp add: verify_api_key_def NO_AUTH_PATHS_def ENABLE_API_AUTH_def)
  from health_check_needs_no_engine[of "startup_event broken_env init_state" None] a b c
  show ?thesis by simp
qed

subsection \<open>C9: \<open>PRELOAD_MODEL\<close>\<close>

text \<open>
  C9. For every value of the environment variable \<open>PRELOAD_MODEL\<close>, unset included, the
  configuration constant \<open>PRELOAD_MODEL\<close> is \<open>True\<close>; so the start-up always builds the
  service: whenever the service can be built, it is in place after \<open>startup_event\<close>.
\<close>

theorem PRELOAD_MODEL_cannot_be_disabled:
  "PRELOAD_MODEL var = True
   \<and> (\<forall>s st1. get_tts_service env st = (Inr s, st1) \<longrightarrow>
        tts_service (startup_event env st) = Some s)"
proof (intro conjI allI impI)
  show "PRELOAD_MODEL var = True" by (simp add: PRELOAD_MODEL_def Let_def)
next
  fix s st1
  assume gs: "get_tts_service env st = (Inr s, st1)"
  have pre: "PRELOAD_MODEL (environ_PRELOAD_MODEL env)" by (rule PRELOAD_MODEL_True)
  obtain r st2 where gav: "get_available_voices env st1 = (r, st2)"
    by (cases "get_available_voices env st1")
  have "tts_service st2 = Some s"
    using get_available_voices_frame(3)[OF gav] get_tts_service_sets[OF gs] by simp
  then show "tts_service (startup_event env st) = Some s"
    using pre gs gav
    by (cases r) (simp_all add: startup_event_def)
qed

text \<open>The theorem at \<open>false\<close>, \<open>0\<close> and the unset variable, and at a start-up with \<open>false\<close>.\<close>

theorem PRELOAD_MODEL_witness:
  "environ_PRELOAD_MODEL demo_env = Some ''false''
   \<and> PRELOAD_MODEL (Some ''false'') = True
   \<and> PRELOAD_MODEL (Some ''0'') = True
   \<and> PRELOAD_MODEL None = True
   \<and> tts_service (startup_event demo_env init_state) =
       Some \<lparr>initialized = True, default_voices = [''alice''], spk_custom = [''bob'']\<rparr>"
proof -
  have g: "get_tts_service demo_env init_state =
      (Inr \<lparr>initialized = True, default_voices = [''alice''], spk_custom = [''bob'']\<rparr>,
       init_state\<lparr>cls_instance := Some \<lparr>initialized = True, default_voices = [''alice''], spk_custom = [''bob'']\<rparr>,
                  tts_service := Some \<lparr>initialized = True, default_voices = [''alice''], spk_custom = [''bob'']\<rparr>\<rparr>)"
    by (simp add: model_defs)
  have e: "environ_PRELOAD_MODEL demo_env = Some ''false''" by (simp add: demo_env_def)
  from PRELOAD_MODEL_cannot_be_disabled[of "Some ''false''" demo_env init_state]
       PRELOAD_MODEL_cannot_be_disabled[of "Some ''0''" demo_env init_state]
       PRELOAD_MODEL_cannot_be_disabled[of None demo_env init_state] g e
  show ?thesis by simp
qed

subsection \<open>C10: the snapshot of the custom voices\<close>

text \<open>
  C10, as amended. \<open>generate_tts\<close> checks the speaker against \<open>default_voices\<close> and
  \<open>spk_custom\<close>, which \<open>initialize_model\<close> sets once: a later \<open>TTSService()\<close> returns the same
  object whatever the directory holds by then. \<open>get_available_voices\<close> scans the directory
  at every call. So for a file \<open>fname\<close> ending in \<open>.pt\<close> that is in the directory after the
  initialisation and whose voice id (the name with every \<open>.pt\<close> removed) is neither built
  in nor in the snapshot, the voice is listed by \<open>get_available_voices\<close>, and
  \<open>generate_tts\<close> raises an error saying that it does not exist, without calling the model.
\<close>

theorem stale_snapshot_rejects_new_voice:
  assumes "TTSService env0 st0 = (Inr self, st1)"
    and "voices_dir_exists env1" and "fname \<in> set (listdir env1)" and "endswith fname ''.pt''"
    and "replace_pt fname \<notin> set (default_voices self)"
    and "replace_pt fname \<notin> set (spk_custom self)"
  shows "TTSService env1 st1 = (Inr self, st1)
       \<and> (\<exists>voices. get_available_voices env1 st1 = (Inr voices, st1)
             \<and> map voice_id voices = list_available_spks env1 @ scan_voices (listdir env1)
             \<and> replace_pt fname \<in> set (map voice_id voices))
       \<and> (\<exists>p st2. generate_tts env1 self st1 text (replace_pt fname) instruct b speed =
             (Inl (RuntimeError (p @ msg_spk_pre @ replace_pt fname @ msg_spk_post @
                                  join '', '' (default_voices self @ spk_custom self))), st2)
             \<and> engine_calls st2 = engine_calls st1)"
proof -
  note inst = TTSService_Inr[OF assms(1)]
  have same: "TTSService env1 st1 = (Inr self, st1)"
    by (rule TTSService_initialized[OF inst])
  from get_available_voices_initialized[OF inst, of env1] obtain voices where
    g: "get_available_voices env1 st1 = (Inr voices, st1)" by blast
  from get_available_voices_ids[OF g] assms(2) have
    ids: "map voice_id voices = list_available_spks env1 @ scan_voices (listdir env1)" by simp
  have "replace_pt fname \<in> set (scan_voices (listdir env1))"
    by (rule scan_voices_member[OF assms(3,4)])
  with ids have mem: "replace_pt fname \<in> set (map voice_id voices)" by simp
  from generate_tts_unknown_speaker[OF assms(5,6), of env1 st1 "text" instruct b speed]
       same g ids mem
  show ?thesis by blast
qed

text \<open>
  The theorem where \<open>carol.pt\<close> is added after the service was built: \<open>carol\<close> is listed
  and \<open>generate_tts\<close> refuses it. The last conjunct is a whole request for \<open>carol\<close> after a
  first request built the service: it passes the check of \<open>tts\<close> against the listing and is
  answered with the error 400 that \<open>generate_tts\<close>'s refusal becomes.
\<close>

theorem stale_snapshot_witness:
  "TTSService demo_env init_state =
     (Inr \<lparr>initialized = True, default_voices = [''alice''], spk_custom = [''bob'']\<rparr>,
      init_state\<lparr>cls_instance := Some \<lparr>initialized = True, default_voices = [''alice''], spk_custom = [''bob'']\<rparr>\<rparr>)
   \<and> ''carol.pt'' \<notin> set (listdir demo_env) \<and> ''carol.pt'' \<in> set (listdir added_env)
   \<and> replace_pt ''carol.pt'' = ''carol''
   \<and> map voice_id (projr (fst (get_available_voices added_env
        (init_state\<lparr>cls_instance := Some \<lparr>initialized = True, default_voices = [''alice''], spk_custom = [''bob'']\<rparr>\<rparr>))))
       = [''alice'', ''bob'', ''carol'']
   \<and> isl (fst (generate_tts added_env
        \<lparr>initialized = True, default_voices = [''alice''], spk_custom = [''bob'']\<rparr>
        (init_state\<lparr>cls_instance := Some \<lparr>initialized = True, default_voices = [''alice''], spk_custom = [''bob'']\<rparr>\<rparr>)
        ''hello'' ''carol'' None False 1))
   \<and> fst (tts added_env
        (snd (tts demo_env init_state ''hello'' ''alice'' None 0 1)) ''hello'' ''carol'' None 0 1) =
       Inl (HTTPException 400
             (msg_voice_error @ msg_rt_generic @ msg_spk_pre @ ''carol'' @ msg_spk_post @ ''alice, bob''))"
proof -
  let ?svc = "\<lparr>initialized = True, default_voices = [''alice''], spk_custom = [''bob'']\<rparr>"
  let ?st1 = "init_state\<lparr>cls_instance := Some ?svc\<rparr>"
  have t: "TTSService demo_env init_state = (Inr ?svc, ?st1)"
    by (simp add: model_defs)
  have d: "voices_dir_exists added_env" "''carol.pt'' \<in> set (listdir added_env)"
    "endswith ''carol.pt'' ''.pt''" "''carol.pt'' \<notin> set (listdir demo_env)"
    "list_available_spks added_env = [''alice'']"
    "scan_voices (listdir added_env) = [''bob'', ''carol'']"
    by (simp_all add: added_env_def demo_env_def endswith_def)
  have r: "replace_pt ''carol.pt'' = ''carol''" by simp
  have n: "replace_pt ''carol.pt'' \<notin> set (default_voices ?svc)"
    "replace_pt ''carol.pt'' \<notin> set (spk_custom ?svc)" by simp_all
  have whole: "fst (tts added_env
        (snd (tts demo_env init_state ''hello'' ''alice'' None 0 1)) ''hello'' ''carol'' None 0 1) =
       Inl (HTTPException 400
             (msg_voice_error @ msg_rt_generic @ msg_spk_pre @ ''carol'' @ msg_spk_post @ ''alice, bob''))"
    by (simp add: added_env_def model_defs lower_def lower_char_def
          msg_voice_def msg_spk_pre_def msg_spk_post_def msg_rt_generic_def msg_voice_error_def)
  from stale_snapshot_rejects_new_voice[OF t d(1-3) n, of "''hello''" None False 1] t d r whole
  show ?thesis by auto
qed

text \<open>
  C10 as stated fails when the file added is \<open>alice.pt\<close> and \<open>alice\<close> is built in: the voice
  is listed and \<open>generate_tts\<close> accepts it. A file \<open>bo.ptb.pt\<close> becomes the voice \<open>bob\<close>,
  which the snapshot holds already.
\<close>

theorem stale_snapshot_collision_counterexample:
  "TTSService demo_env init_state =
     (Inr \<lparr>initialized = True, default_voices = [''alice''], spk_custom = [''bob'']\<rparr>,
      init_state\<lparr>cls_instance := Some \<lparr>initialized = True, default_voices = [''alice''], spk_custom = [''bob'']\<rparr>\<rparr>)
   \<and> ''alice.pt'' \<notin> set (listdir demo_env) \<and> ''alice.pt'' \<in> set (listdir collide_env)
   \<and> replace_pt ''alice.pt'' = ''alice''
   \<and> fst (get_available_voices collide_env
        (init_state\<lparr>cls_instance := Some \<lparr>initialized = True, default_voices = [''alice''], spk_custom = [''bob'']\<rparr>\<rparr>)) =
       Inr [\<lparr>name = ''alice'', voice_id = ''alice''\<rparr>, \<lparr>name = ''alice'', voice_id = ''alice''\<rparr>,
            \<lparr>name = ''bob'', voice_id = ''bob''\<rparr>]
   \<and> fst (generate_tts collide_env
        \<lparr>initialized = True, default_voices = [''alice''], spk_custom = [''bob'']\<rparr>
        (init_state\<lparr>cls_instance := Some \<lparr>initialized = True, default_voices = [''alice''], spk_custom = [''bob'']\<rparr>\<rparr>)
        ''hello'' ''alice'' None False 1) =
       Inr (Yield \<lparr>tts_speech = [[1, 2]]\<rparr> (Yield \<lparr>tts_speech = [[3, 4, 5]]\<rparr> Done))
   \<and> replace_pt ''bo.ptb.pt'' = ''bob''"
  by (simp add: collide_env_def model_defs)

end
